theory Spec2Isabelle
  imports Main "HOL-Library.Option_ord"
begin

text \<open>
  A model of the ingestion and caching pipeline of the news aggregator: the
  two article normalizers, the keyed bulk upsert into the article store, the
  fetch scheduler with its slot table and counters
  (\<^verbatim>\<open>services/newsFetchScheduler.service.js\<close>,
  \<^verbatim>\<open>config/fetchSchedule.config.js\<close>), the two upstream clients
  (\<^verbatim>\<open>services/newsApi.service.js\<close>, \<^verbatim>\<open>services/newsApiOrg.service.js\<close>),
  the schema and query statics of the store (\<^verbatim>\<open>db/models/News.model.js\<close>), the
  manual trigger of the scheduler controller
  (\<^verbatim>\<open>controllers/scheduler.controller.js\<close>) and the read operations of the
  unified news service. State is passed explicitly; what a function throws is
  the left summand of its result; logging is left out.
\<close>

section \<open>JavaScript values read by the ingestion code\<close>

text \<open>
  The providers answer with JSON. A field the code reads as text is absent
  (\<open>undefined\<close>), \<open>null\<close> or a string. \<open>truthy\<close> is the test behind
  \<open>||\<close>, \<open>!\<close> and \<open>if\<close>; \<open>to_string\<close> is what a template literal
  interpolates.
\<close>

datatype jsval = Undefined | Null | Str string

fun truthy :: "jsval \<Rightarrow> bool" where
  "truthy (Str s) = (s \<noteq> [])"
| "truthy Undefined = False"
| "truthy Null = False"

fun to_string :: "jsval \<Rightarrow> string" where
  "to_string Undefined = ''undefined''"
| "to_string Null = ''null''"
| "to_string (Str s) = s"

definition js_or :: "jsval \<Rightarrow> jsval \<Rightarrow> jsval" where
  \<comment> \<open>\<open>a || b\<close>\<close>
  "js_or a b = (if truthy a then a else b)"

definition or_empty :: "jsval \<Rightarrow> string" where
  \<comment> \<open>\<open>a || ""\<close>\<close>
  "or_empty a = (if truthy a then to_string a else [])"

definition or_null :: "jsval \<Rightarrow> string option" where
  \<comment> \<open>\<open>a || null\<close>\<close>
  "or_null a = (if truthy a then Some (to_string a) else None)"

definition or_list :: "'a list option \<Rightarrow> 'a list" where
  \<comment> \<open>\<open>xs || []\<close>: every array is truthy, the empty one too\<close>
  "or_list xs = (case xs of None \<Rightarrow> [] | Some ys \<Rightarrow> ys)"

definition or_false :: "bool option \<Rightarrow> bool" where
  \<comment> \<open>\<open>b || false\<close>\<close>
  "or_false b = (case b of None \<Rightarrow> False | Some c \<Rightarrow> c)"

fun join :: "string \<Rightarrow> string list \<Rightarrow> string" where
  "join sep [] = []"
| "join sep [x] = x"
| "join sep (x # y # ys) = x @ sep @ join sep (y # ys)"

text \<open>
  \<open>new Date(v)\<close>: an absent argument gives the invalid date, \<open>null\<close> gives the
  epoch, a string is handed to the runtime's date parser, which is a parameter
  of the model (\<open>None\<close> when the text does not parse). A valid date carries its
  milliseconds since the epoch.
\<close>

datatype jsdate = InvalidDate | Date int

fun new_Date :: "(string \<Rightarrow> int option) \<Rightarrow> jsval \<Rightarrow> jsdate" where
  "new_Date parse Undefined = InvalidDate"
| "new_Date parse Null = Date 0"
| "new_Date parse (Str s) = (case parse s of None \<Rightarrow> InvalidDate | Some t \<Rightarrow> Date t)"

section \<open>Raw provider articles and the canonical record\<close>

text \<open>A NewsData.io article, with the fields \<open>normalizeNewsDataArticle\<close> reads.\<close>

record newsdata_article =
  nd_article_id :: jsval
  nd_title :: jsval
  nd_description :: jsval
  nd_content :: jsval
  nd_link :: jsval
  nd_image_url :: jsval
  nd_pubDate :: jsval
  nd_source_id :: jsval
  nd_source_name :: jsval
  nd_creator :: "string list option"
  nd_category :: "string list option"
  nd_country :: "string list option"
  nd_language :: jsval
  nd_keywords :: "string list option"
  nd_sentiment :: jsval
  nd_video_url :: jsval
  nd_ai_tag :: jsval
  nd_duplicate :: "bool option"

text \<open>A NewsAPI.org article; \<open>source\<close> is a nested object that may be missing.\<close>

record newsapi_source =
  src_id :: jsval
  src_name :: jsval

record newsapi_article =
  na_source :: "newsapi_source option"
  na_author :: jsval
  na_title :: jsval
  na_description :: jsval
  na_url :: jsval
  na_urlToImage :: jsval
  na_publishedAt :: jsval
  na_content :: jsval

text \<open>
  The object both normalizers build. The fifteen keys of \<open>article_common\<close> are
  written by both; \<open>sentiment\<close>, \<open>creator\<close>, \<open>video_url\<close>, \<open>ai_tag\<close> and
  \<open>duplicate\<close> are keys of the NewsData.io object only (\<open>nd_fields = None\<close>
  when the keys are not there). \<open>source.id\<close> and \<open>source.name\<close> are the
  fields \<open>source_id\<close> and \<open>source_name\<close>.
\<close>

record newsdata_fields =
  sentiment :: "string option"
  creator :: "string list"
  video_url :: "string option"
  ai_tag :: "string option"
  duplicate :: bool

record article_common =
  articleId :: string
  title :: jsval
  description :: string
  content :: string
  url :: jsval
  urlToImage :: "string option"
  publishedAt :: jsdate
  source_id :: "string option"
  source_name :: string
  author :: "string option"
  category :: "string list"
  country :: "string list"
  language :: string
  keywords_list :: "string list"
  sourceApi :: string

record article = article_common +
  nd_fields :: "newsdata_fields option"

section \<open>The normalizers\<close>

definition normalizeNewsDataArticle ::
  "(string \<Rightarrow> int option) \<Rightarrow> newsdata_article \<Rightarrow> article" where
  "normalizeNewsDataArticle parse a =
     \<lparr> articleId = ''newsdata_'' @ to_string (js_or (nd_article_id a) (nd_link a)),
       title = nd_title a,
       description = or_empty (nd_description a),
       content = or_empty (nd_content a),
       url = nd_link a,
       urlToImage = or_null (nd_image_url a),
       publishedAt = new_Date parse (nd_pubDate a),
       source_id = or_null (nd_source_id a),
       source_name =
         (if truthy (nd_source_name a) then to_string (nd_source_name a)
          else if truthy (nd_source_id a) then to_string (nd_source_id a)
          else ''Unknown''),
       author =
         (case nd_creator a of
            None \<Rightarrow> None
          | Some cs \<Rightarrow> (if join '', '' cs = [] then None else Some (join '', '' cs))),
       category = or_list (nd_category a),
       country = or_list (nd_country a),
       language = (if truthy (nd_language a) then to_string (nd_language a) else ''en''),
       keywords_list = or_list (nd_keywords a),
       sourceApi = ''newsdata.io'',
       nd_fields = Some
         \<lparr> sentiment = or_null (nd_sentiment a),
           creator = or_list (nd_creator a),
           video_url = or_null (nd_video_url a),
           ai_tag = or_null (nd_ai_tag a),
           duplicate = or_false (nd_duplicate a) \<rparr> \<rparr>"

definition normalizeNewsApiOrgArticle ::
  "(string \<Rightarrow> int option) \<Rightarrow> newsapi_article \<Rightarrow> string list \<Rightarrow> string list \<Rightarrow> article" where
  "normalizeNewsApiOrgArticle parse a cat ctry =
     \<lparr> articleId = ''newsapi_'' @ to_string (na_url a),
       title = na_title a,
       description = or_empty (na_description a),
       content = or_empty (na_content a),
       url = na_url a,
       urlToImage = or_null (na_urlToImage a),
       publishedAt = new_Date parse (na_publishedAt a),
       source_id = (case na_source a of None \<Rightarrow> None | Some s \<Rightarrow> or_null (src_id s)),
       source_name =
         (case na_source a of
            None \<Rightarrow> ''Unknown''
          | Some s \<Rightarrow> (if truthy (src_name s) then to_string (src_name s) else ''Unknown'')),
       author = or_null (na_author a),
       category = cat,
       country = ctry,
       language = ''en'',
       keywords_list = [],
       sourceApi = ''newsapi.org'',
       nd_fields = None \<rparr>"

text \<open>
  The dedup key as the specification words it, for comparison with the code:
  \<open>providerTag + "_" + (providerNativeId ?? canonicalUrl)\<close>, where \<open>??\<close> falls
  through on \<open>undefined\<close> and \<open>null\<close> only.
\<close>

definition nullish_or :: "jsval \<Rightarrow> jsval \<Rightarrow> jsval" where
  "nullish_or a b = (case a of Undefined \<Rightarrow> b | Null \<Rightarrow> b | Str s \<Rightarrow> Str s)"

definition articleId_spec :: "string \<Rightarrow> jsval \<Rightarrow> jsval \<Rightarrow> string" where
  "articleId_spec tag native_id canonical_url =
     tag @ ''_'' @ to_string (nullish_or native_id canonical_url)"

text \<open>Two raw articles used in the examples below.\<close>

definition blank_newsdata :: newsdata_article where
  "blank_newsdata =
     \<lparr> nd_article_id = Undefined, nd_title = Undefined, nd_description = Undefined,
       nd_content = Undefined, nd_link = Undefined, nd_image_url = Undefined,
       nd_pubDate = Undefined, nd_source_id = Undefined, nd_source_name = Undefined,
       nd_creator = None, nd_category = None, nd_country = None, nd_language = Undefined,
       nd_keywords = None, nd_sentiment = Undefined, nd_video_url = Undefined,
       nd_ai_tag = Undefined, nd_duplicate = None \<rparr>"

definition blank_newsapi :: newsapi_article where
  "blank_newsapi =
     \<lparr> na_source = None, na_author = Undefined, na_title = Undefined,
       na_description = Undefined, na_url = Undefined, na_urlToImage = Undefined,
       na_publishedAt = Undefined, na_content = Undefined \<rparr>"

section \<open>The article store\<close>

text \<open>
  A stored document of the collection \<open>news_articles\<close>: the fifteen common
  keys, the five NewsData.io keys (the schema gives each a default), and the
  keys only the schema knows: \<open>fetchedAt\<close> (default \<open>Date.now\<close>),
  \<open>isDeleted\<close>, \<open>deletedAt\<close>, \<open>schemaVersion\<close> and the two timestamps.
  The store is the list of its documents in insertion order.
\<close>

record news_doc = article_common +
  extras :: newsdata_fields
  fetchedAt :: int
  isDeleted :: bool
  deletedAt :: "int option"
  schemaVersion :: nat
  createdAt :: int
  updatedAt :: int

definition schema_defaults :: newsdata_fields where
  "schema_defaults =
     \<lparr> sentiment = None, creator = [], video_url = None, ai_tag = None, duplicate = False \<rparr>"

text \<open>
  The schema gives its string keys setters, which the object mapper applies
  when it casts the filter and the \<open>$set\<close> of an update: \<open>trim\<close> on
  \<open>articleId\<close>, \<open>title\<close>, \<open>description\<close>, \<open>content\<close>, \<open>url\<close>,
  \<open>urlToImage\<close>, \<open>source.id\<close>, \<open>source.name\<close>, \<open>author\<close>,
  \<open>video_url\<close> and \<open>ai_tag\<close>, and \<open>lowercase\<close> with \<open>trim\<close> on
  \<open>language\<close>. Strings are lists of 8-bit characters, so \<open>trim\<close> removes
  the ASCII white space and line terminators at both ends and
  \<open>toLowerCase\<close> maps the letters \<open>A\<close> to \<open>Z\<close>. A setter leaves
  \<open>null\<close> and a missing value as they are.
\<close>

definition is_space :: "char \<Rightarrow> bool" where
  "is_space c =
     (c \<in> set [CHR '' '', CHR 0x09, CHR 0x0A, CHR 0x0B, CHR 0x0C, CHR 0x0D])"

definition trim :: "string \<Rightarrow> string" where
  "trim s = rev (dropWhile is_space (rev (dropWhile is_space s)))"

definition lower_table :: "(char \<times> char) list" where
  "lower_table = zip ''ABCDEFGHIJKLMNOPQRSTUVWXYZ'' ''abcdefghijklmnopqrstuvwxyz''"

definition toLowerCase :: "string \<Rightarrow> string" where
  "toLowerCase s = map (\<lambda>c. case map_of lower_table c of None \<Rightarrow> c | Some l \<Rightarrow> l) s"

definition trim_val :: "jsval \<Rightarrow> jsval" where
  "trim_val v = (case v of Str s \<Rightarrow> Str (trim s) | Undefined \<Rightarrow> Undefined | Null \<Rightarrow> Null)"

definition cast_extras :: "newsdata_fields \<Rightarrow> newsdata_fields" where
  "cast_extras x =
     x \<lparr> video_url := map_option trim (video_url x), ai_tag := map_option trim (ai_tag x) \<rparr>"

text \<open>
  \<open>updateOne\<close> with \<open>filter: {articleId}\<close>, \<open>update: {$set: article}\<close> and
  \<open>upsert: true\<close>, after the cast. The filter matches on the trimmed
  \<open>articleId\<close>. When no document matches, one is inserted from the filter,
  the cast \<open>$set\<close> keys and the schema defaults of every other key
  (\<open>new_doc\<close>); a key whose value is \<open>undefined\<close> is not part of the
  \<open>$set\<close>, so the inserted document is without it. Otherwise the first
  match gets the cast \<open>$set\<close> keys and a new \<open>updatedAt\<close> and keeps every
  other key (\<open>set_fields\<close>), among them a \<open>title\<close> or \<open>url\<close> that the
  record has as \<open>undefined\<close>; these two are the only keys a normalizer can
  leave undefined.
\<close>

definition new_doc :: "int \<Rightarrow> article \<Rightarrow> news_doc" where
  "new_doc now a =
     \<lparr> articleId = trim (articleId a), title = trim_val (title a),
       description = trim (description a), content = trim (content a),
       url = trim_val (url a), urlToImage = map_option trim (urlToImage a),
       publishedAt = publishedAt a, source_id = map_option trim (source_id a),
       source_name = trim (source_name a), author = map_option trim (author a),
       category = category a, country = country a,
       language = toLowerCase (trim (language a)), keywords_list = keywords_list a,
       sourceApi = sourceApi a,
       extras = (case nd_fields a of None \<Rightarrow> schema_defaults | Some x \<Rightarrow> cast_extras x),
       fetchedAt = now, isDeleted = False, deletedAt = None, schemaVersion = 1,
       createdAt = now, updatedAt = now \<rparr>"

definition set_fields :: "int \<Rightarrow> article \<Rightarrow> news_doc \<Rightarrow> news_doc" where
  "set_fields now a d =
     d \<lparr> articleId := trim (articleId a),
         title := (if title a = Undefined then title d else trim_val (title a)),
         description := trim (description a), content := trim (content a),
         url := (if url a = Undefined then url d else trim_val (url a)),
         urlToImage := map_option trim (urlToImage a),
         publishedAt := publishedAt a, source_id := map_option trim (source_id a),
         source_name := trim (source_name a), author := map_option trim (author a),
         category := category a, country := country a,
         language := toLowerCase (trim (language a)),
         keywords_list := keywords_list a, sourceApi := sourceApi a,
         extras := (case nd_fields a of None \<Rightarrow> extras d | Some x \<Rightarrow> cast_extras x),
         updatedAt := now \<rparr>"

fun update_first :: "int \<Rightarrow> article \<Rightarrow> news_doc list \<Rightarrow> news_doc list" where
  "update_first now a [] = []"
| "update_first now a (d # ds) =
     (if articleId d = trim (articleId a) then set_fields now a d # ds
      else d # update_first now a ds)"

record bulk_state =
  docs :: "news_doc list"
  upsertedCount :: nat
  modifiedCount :: nat

definition updateOne_upsert :: "int \<Rightarrow> bulk_state \<Rightarrow> article \<Rightarrow> bulk_state" where
  "updateOne_upsert now st a =
     (if trim (articleId a) \<in> set (map articleId (docs st))
      then st \<lparr> docs := update_first now a (docs st),
                modifiedCount :=
                  (if update_first now a (docs st) = docs st then modifiedCount st
                   else modifiedCount st + 1) \<rparr>
      else st \<lparr> docs := docs st @ [new_doc now a],
                upsertedCount := upsertedCount st + 1 \<rparr>)"

text \<open>
  What the store layer does around the upserts is fixed by the deployment and
  by the release of the object mapper, which the sources do not pin. The model
  takes it from the environment: whether the store can be reached, and what an
  unordered bulk write does with an operation that cannot be cast to the
  schema (here: an invalid date for \<open>publishedAt\<close>): skip that operation, or
  throw before anything is written. Schema validators (\<open>required\<close>,
  \<open>maxlength\<close>, the URL validator) do not run on update operations, which is
  all the ingestion path sends. The environment also holds the two clocks
  (\<open>now_store\<close>, read by the store layer when it stamps a write, and
  \<open>now\<close>, read by the service code) and the relevance score of the
  store's text index (\<open>0\<close> for a document the query does not match).
\<close>

datatype error = StoreUnavailable | CastError | TypeError | BadQuery

datatype cast_policy = SkipOperation | RejectBatch

datatype upstream_error = HttpStatus nat | NoResponse | RequestFailed

record fetch_config =
  cfg_category :: "string option"
  cfg_country :: "string option"
  cfg_language :: "string option"
  cfg_pageSize :: "nat option"

record newsdata_body =
  body_status :: string
  body_results :: "newsdata_article list option"

record newsapi_body =
  body_articles :: "newsapi_article list option"

record env =
  newsdata_http :: "fetch_config \<Rightarrow> upstream_error + newsdata_body"
  newsapi_http :: "fetch_config \<Rightarrow> upstream_error + newsapi_body"
  date_parse :: "string \<Rightarrow> int option"
  store_online :: bool
  on_cast_error :: cast_policy
  text_score :: "string \<Rightarrow> news_doc \<Rightarrow> nat"
  now_store :: int
  now :: int

definition castable :: "article \<Rightarrow> bool" where
  "castable a = (publishedAt a \<noteq> InvalidDate)"

definition bulkWrite :: "env \<Rightarrow> article list \<Rightarrow> news_doc list \<Rightarrow> error + bulk_state" where
  "bulkWrite e ops ds =
     (if \<not> store_online e then Inl StoreUnavailable
      else if on_cast_error e = RejectBatch \<and> \<not> list_all castable ops then Inl CastError
      else Inr (foldl (updateOne_upsert (now_store e))
                  \<lparr> docs = ds, upsertedCount = 0, modifiedCount = 0 \<rparr>
                  (filter castable ops)))"

record save_result =
  saved :: nat
  updated :: nat

definition saveArticlesToDB ::
  "env \<Rightarrow> article list \<Rightarrow> news_doc list \<Rightarrow> error + (save_result \<times> news_doc list)" where
  "saveArticlesToDB e articles ds =
     (if articles = [] then Inr (\<lparr> saved = 0, updated = 0 \<rparr>, ds)
      else (case bulkWrite e articles ds of
              Inl err \<Rightarrow> Inl err
            | Inr result \<Rightarrow>
                Inr (\<lparr> saved = upsertedCount result, updated = modifiedCount result \<rparr>,
                     docs result)))"



text \<open>Committing one record once per environment of a list, in order.\<close>

fun commit_each :: "env list \<Rightarrow> article \<Rightarrow> news_doc list \<Rightarrow> error + news_doc list" where
  "commit_each [] r ds = Inr ds"
| "commit_each (e # es) r ds =
     (case saveArticlesToDB e [r] ds of
        Inl err \<Rightarrow> Inl err
      | Inr (res, ds') \<Rightarrow> commit_each es r ds')"


section \<open>The upstream clients\<close>

text \<open>
  Every HTTP exchange is recorded in a log. \<open>newsdata_http\<close> and
  \<open>newsapi_http\<close> stand for the exchange itself: what axios resolves to
  (the response body) or the error it rejects with, for a filter object.
\<close>

datatype upstream_call = NewsDataCall fetch_config | NewsApiOrgCall fetch_config

text \<open>
  \<open>NewsApiService.getLatestNews\<close> resolves to the object
  \<open>{success: true, data: response.data}\<close> and throws what \<open>handleError\<close>
  builds. The object is modelled with its keys, since its caller reads a key
  by name.
\<close>

datatype property_value =
  PBool bool | PObject newsdata_body | PArray "newsdata_article list"

type_synonym js_object = "(string \<times> property_value) list"

definition NewsApiService_getLatestNews ::
  "env \<Rightarrow> fetch_config \<Rightarrow> upstream_call list
     \<Rightarrow> (upstream_error + js_object) \<times> upstream_call list" where
  "NewsApiService_getLatestNews e filters log =
     (case newsdata_http e filters of
        Inl err \<Rightarrow> (Inl err, log @ [NewsDataCall filters])
      | Inr body \<Rightarrow>
          (Inr [(''success'', PBool True), (''data'', PObject body)],
           log @ [NewsDataCall filters]))"

text \<open>
  \<open>NewsApiOrgService.getTopHeadlines\<close> resolves to \<open>response.data\<close> itself
  and throws an \<open>Error\<close> otherwise.
\<close>

definition getTopHeadlines ::
  "env \<Rightarrow> fetch_config \<Rightarrow> upstream_call list
     \<Rightarrow> (upstream_error + newsapi_body) \<times> upstream_call list" where
  "getTopHeadlines e filters log = (newsapi_http e filters, log @ [NewsApiOrgCall filters])"

section \<open>The fetch scheduler\<close>

text \<open>
  \<open>fetchFromNewsData\<close> reads \<open>result?.results\<close>: the key \<open>results\<close> of the
  object \<open>getLatestNews\<close> resolved to. Only an array there is mapped; a
  missing or falsy key returns \<open>[]\<close>, and any other value makes \<open>.map\<close>
  throw inside the \<open>try\<close>, which returns \<open>[]\<close> as well. A rejected call is
  caught and returns \<open>[]\<close>.
\<close>

definition fetchFromNewsData ::
  "env \<Rightarrow> fetch_config \<Rightarrow> upstream_call list \<Rightarrow> article list \<times> upstream_call list" where
  "fetchFromNewsData e config log =
     (case NewsApiService_getLatestNews e config log of
        (Inl err, log') \<Rightarrow> ([], log')
      | (Inr result, log') \<Rightarrow>
          (case map_of result ''results'' of
             Some (PArray rs) \<Rightarrow> (map (normalizeNewsDataArticle (date_parse e)) rs, log')
           | Some (PBool b) \<Rightarrow> ([], log')
           | Some (PObject b) \<Rightarrow> ([], log')
           | None \<Rightarrow> ([], log')))"

definition singleton_if_set :: "string option \<Rightarrow> string list" where
  \<comment> \<open>\<open>v ? [v] : []\<close>\<close>
  "singleton_if_set v = (case v of None \<Rightarrow> [] | Some s \<Rightarrow> (if s = [] then [] else [s]))"

definition fetchFromNewsApiOrg ::
  "env \<Rightarrow> fetch_config \<Rightarrow> upstream_call list \<Rightarrow> article list \<times> upstream_call list" where
  "fetchFromNewsApiOrg e config log =
     (case getTopHeadlines e config log of
        (Inl err, log') \<Rightarrow> ([], log')
      | (Inr result, log') \<Rightarrow>
          (case body_articles result of
             Some as \<Rightarrow>
               (map (\<lambda>a. normalizeNewsApiOrgArticle (date_parse e) a
                             (singleton_if_set (cfg_category config))
                             (singleton_if_set (cfg_country config))) as,
                log')
           | None \<Rightarrow> ([], log')))"

text \<open>The slot table \<open>FETCH_SCHEDULE\<close>, key by key.\<close>

record schedule =
  sched_time :: string
  sched_description :: string
  newsDataConfig :: "fetch_config list"
  newsApiConfig :: "fetch_config list"

definition nd_cfg :: "string \<Rightarrow> string option \<Rightarrow> fetch_config" where
  \<comment> \<open>\<open>{ category, country?, language: "en" }\<close>\<close>
  "nd_cfg cat ctry =
     \<lparr> cfg_category = Some cat, cfg_country = ctry, cfg_language = Some ''en'',
       cfg_pageSize = None \<rparr>"

definition na_cfg :: "string \<Rightarrow> string option \<Rightarrow> fetch_config" where
  \<comment> \<open>\<open>{ country, category?, pageSize: 100 }\<close>\<close>
  "na_cfg ctry cat =
     \<lparr> cfg_category = cat, cfg_country = Some ctry, cfg_language = None,
       cfg_pageSize = Some 100 \<rparr>"

definition FETCH_SCHEDULE :: "(string \<times> schedule) list" where
  "FETCH_SCHEDULE =
     [(''EARLY_MORNING'',
       \<lparr> sched_time = ''0 6 * * *'',
         sched_description = ''Early morning fetch - General & Breaking news'',
         newsDataConfig =
           [nd_cfg ''top'' (Some ''in''), nd_cfg ''breaking'' (Some ''in''),
            nd_cfg ''top'' (Some ''us''), nd_cfg ''breaking'' (Some ''us''),
            nd_cfg ''world'' None],
         newsApiConfig = [na_cfg ''in'' None, na_cfg ''us'' None] \<rparr>),
      (''MORNING'',
       \<lparr> sched_time = ''0 9 * * *'',
         sched_description = ''Morning fetch - Business & Technology news'',
         newsDataConfig =
           [nd_cfg ''business'' (Some ''in''), nd_cfg ''technology'' (Some ''in''),
            nd_cfg ''business'' (Some ''us''), nd_cfg ''technology'' (Some ''us'')],
         newsApiConfig =
           [na_cfg ''in'' (Some ''business''), na_cfg ''in'' (Some ''technology''),
            na_cfg ''us'' (Some ''business''), na_cfg ''us'' (Some ''technology'')] \<rparr>),
      (''AFTERNOON'',
       \<lparr> sched_time = ''0 13 * * *'',
         sched_description = ''Afternoon fetch - Entertainment & Sports'',
         newsDataConfig =
           [nd_cfg ''entertainment'' (Some ''in''), nd_cfg ''entertainment'' (Some ''us''),
            nd_cfg ''sports'' (Some ''us''), nd_cfg ''sports'' (Some ''in'')],
         newsApiConfig =
           [na_cfg ''in'' (Some ''entertainment''), na_cfg ''in'' (Some ''sports''),
            na_cfg ''us'' (Some ''entertainment''), na_cfg ''us'' (Some ''sports'')] \<rparr>),
      (''EVENING'',
       \<lparr> sched_time = ''0 18 * * *'',
         sched_description = ''Evening fetch - Health & Science news'',
         newsDataConfig =
           [nd_cfg ''health'' (Some ''in''), nd_cfg ''health'' (Some ''us''),
            nd_cfg ''science'' (Some ''us''), nd_cfg ''science'' (Some ''in''),
            nd_cfg ''politics'' (Some ''in''), nd_cfg ''politics'' (Some ''us'')],
         newsApiConfig =
           [na_cfg ''in'' (Some ''health''), na_cfg ''us'' (Some ''health''),
            na_cfg ''in'' (Some ''science''), na_cfg ''us'' (Some ''science'')] \<rparr>),
      (''NIGHT'',
       \<lparr> sched_time = ''0 22 * * *'',
         sched_description = ''Night fetch - Latest updates & Politics'',
         newsDataConfig =
           [nd_cfg ''top'' None, nd_cfg ''politics'' (Some ''us''),
            nd_cfg ''technology'' (Some ''in''), nd_cfg ''politics'' (Some ''in''),
            nd_cfg ''technology'' (Some ''us'')],
         newsApiConfig = [na_cfg ''in'' None, na_cfg ''us'' None] \<rparr>)]"

text \<open>
  \<open>FETCH_SCHEDULE[scheduleName]\<close> is a property read on an object literal: a
  slot name yields its entry, a name \<open>Object.prototype\<close> defines yields an
  inherited function or object (truthy, and without \<open>newsDataConfig\<close>), any
  other name yields \<open>undefined\<close>.
\<close>

datatype 'a property = Own 'a | Inherited | Absent

definition object_prototype_keys :: "string list" where
  "object_prototype_keys =
     [''constructor'', ''__defineGetter__'', ''__defineSetter__'', ''hasOwnProperty'',
      ''__lookupGetter__'', ''__lookupSetter__'', ''isPrototypeOf'',
      ''propertyIsEnumerable'', ''toString'', ''valueOf'', ''__proto__'',
      ''toLocaleString'']"

definition lookup_schedule :: "string \<Rightarrow> schedule property" where
  "lookup_schedule scheduleName =
     (case map_of FETCH_SCHEDULE scheduleName of
        Some s \<Rightarrow> Own s
      | None \<Rightarrow> (if scheduleName \<in> set object_prototype_keys then Inherited else Absent))"

text \<open>
  The state the operations act on: the store, the log of upstream calls, and
  the scheduler object's \<open>lastFetchTimes\<close> and \<open>fetchStats\<close>.
\<close>

record fetch_stats =
  totalFetches :: nat
  successfulFetches :: nat
  failedFetches :: nat
  articlesSaved :: nat

record system =
  store :: "news_doc list"
  upstream_calls :: "upstream_call list"
  lastFetchTimes :: "string \<Rightarrow> int option"
  fetchStats :: fetch_stats

definition initial_system :: system where
  "initial_system =
     \<lparr> store = [], upstream_calls = [], lastFetchTimes = (\<lambda>k. None),
       fetchStats =
         \<lparr> totalFetches = 0, successfulFetches = 0, failedFetches = 0,
           articlesSaved = 0 \<rparr> \<rparr>"

text \<open>The two \<open>for\<close> loops of \<open>executeScheduledFetch\<close>.\<close>

fun newsdata_loop ::
  "env \<Rightarrow> fetch_config list \<Rightarrow> article list \<Rightarrow> upstream_call list
     \<Rightarrow> article list \<times> upstream_call list" where
  "newsdata_loop e [] allArticles log = (allArticles, log)"
| "newsdata_loop e (config # rest) allArticles log =
     (case fetchFromNewsData e config log of
        (articles, log') \<Rightarrow> newsdata_loop e rest (allArticles @ articles) log')"

fun newsapi_loop ::
  "env \<Rightarrow> fetch_config list \<Rightarrow> article list \<Rightarrow> upstream_call list
     \<Rightarrow> article list \<times> upstream_call list" where
  "newsapi_loop e [] allArticles log = (allArticles, log)"
| "newsapi_loop e (config # rest) allArticles log =
     (case fetchFromNewsApiOrg e config log of
        (articles, log') \<Rightarrow> newsapi_loop e rest (allArticles @ articles) log')"

definition fetch_slot ::
  "env \<Rightarrow> schedule \<Rightarrow> upstream_call list \<Rightarrow> article list \<times> upstream_call list" where
  "fetch_slot e sch log =
     (case newsdata_loop e (newsDataConfig sch) [] log of
        (fromNewsData, log') \<Rightarrow> newsapi_loop e (newsApiConfig sch) fromNewsData log')"

definition count_attempt :: "fetch_stats \<Rightarrow> fetch_stats" where
  "count_attempt st = st \<lparr> totalFetches := totalFetches st + 1 \<rparr>"

definition count_success :: "nat \<Rightarrow> fetch_stats \<Rightarrow> fetch_stats" where
  "count_success n st =
     st \<lparr> totalFetches := totalFetches st + 1,
          successfulFetches := successfulFetches st + 1,
          articlesSaved := articlesSaved st + n \<rparr>"

definition count_failure :: "fetch_stats \<Rightarrow> fetch_stats" where
  "count_failure st =
     st \<lparr> totalFetches := totalFetches st + 1, failedFetches := failedFetches st + 1 \<rparr>"

text \<open>
  \<open>executeScheduledFetch\<close>. An absent name logs and returns. An inherited
  property passes the guard, and \<open>schedule.newsDataConfig.length\<close> throws a
  \<open>TypeError\<close> inside the \<open>try\<close>, before any fetch. For a slot, both loops
  run, then the three branches: articles saved, save thrown, nothing fetched.
\<close>

definition executeScheduledFetch :: "env \<Rightarrow> string \<Rightarrow> system \<Rightarrow> system" where
  "executeScheduledFetch e scheduleName s =
     (case lookup_schedule scheduleName of
        Absent \<Rightarrow> s
      | Inherited \<Rightarrow> s \<lparr> fetchStats := count_failure (fetchStats s) \<rparr>
      | Own sch \<Rightarrow>
          (case fetch_slot e sch (upstream_calls s) of
             (allArticles, log) \<Rightarrow>
               (if allArticles \<noteq> [] then
                  (case saveArticlesToDB e allArticles (store s) of
                     Inr (saveResult, ds) \<Rightarrow>
                       s \<lparr> store := ds, upstream_calls := log,
                           lastFetchTimes := (lastFetchTimes s)(scheduleName \<mapsto> now e),
                           fetchStats := count_success (saved saveResult) (fetchStats s) \<rparr>
                   | Inl err \<Rightarrow>
                       s \<lparr> upstream_calls := log,
                           fetchStats := count_failure (fetchStats s) \<rparr>)
                else s \<lparr> upstream_calls := log,
                         fetchStats := count_attempt (fetchStats s) \<rparr>)))"

definition triggerManualFetch :: "env \<Rightarrow> string \<Rightarrow> system \<Rightarrow> system" where
  "triggerManualFetch e scheduleName s = executeScheduledFetch e scheduleName s"

section \<open>The scheduler controller\<close>

record http_response =
  statusCode :: nat
  resp_success :: bool
  resp_message :: string
  resp_data :: "(string \<times> string) option"

definition sendSuccessResponse :: "(string \<times> string) option \<Rightarrow> string \<Rightarrow> nat \<Rightarrow> http_response" where
  "sendSuccessResponse d m c =
     \<lparr> statusCode = c, resp_success = True, resp_message = m, resp_data = d \<rparr>"

definition sendErrorResponse :: "string \<Rightarrow> nat \<Rightarrow> http_response" where
  "sendErrorResponse m c =
     \<lparr> statusCode = c, resp_success = False, resp_message = m, resp_data = None \<rparr>"

text \<open>
  \<open>SchedulerController.triggerManualFetch\<close>. The request body is missing
  (destructuring throws, the \<open>catch\<close> answers 500) or holds the key
  \<open>schedule\<close>. The fetch is started without being awaited and the answer is
  sent at once; the returned state is the one reached when the started fetch
  has run, the answer does not depend on it.
\<close>

definition SchedulerController_triggerManualFetch ::
  "env \<Rightarrow> jsval option \<Rightarrow> system \<Rightarrow> http_response \<times> system" where
  "SchedulerController_triggerManualFetch e body s =
     (case body of
        None \<Rightarrow> (sendErrorResponse ''Cannot destructure property'' 500, s)
      | Some sched \<Rightarrow>
          (if \<not> truthy sched then
             (sendErrorResponse
                ''Schedule name is required (MORNING, AFTERNOON, EVENING, NIGHT, EARLY_MORNING)''
                400, s)
           else
             (sendSuccessResponse (Some (to_string sched, ''triggered''))
                (''Manual fetch for '' @ to_string sched @ '' has been triggered'') 202,
              triggerManualFetch e (to_string sched) s)))"

section \<open>The read service\<close>

text \<open>
  The filter object of a request and the query built from it: a key is
  copied when its value is truthy. On the array keys \<open>category\<close> and
  \<open>country\<close> a query value matches a document that contains it.
\<close>

record filters =
  f_category :: jsval
  f_country :: jsval
  f_language :: jsval

record query =
  q_category :: "string option"
  q_country :: "string option"
  q_language :: "string option"

definition build_query :: "filters \<Rightarrow> query" where
  "build_query f =
     \<lparr> q_category = or_null (f_category f), q_country = or_null (f_country f),
       q_language = or_null (f_language f) \<rparr>"

definition matches :: "query \<Rightarrow> news_doc \<Rightarrow> bool" where
  "matches q d =
     ((case q_category q of None \<Rightarrow> True | Some c \<Rightarrow> c \<in> set (category d)) \<and>
      (case q_country q of None \<Rightarrow> True | Some c \<Rightarrow> c \<in> set (country d)) \<and>
      (case q_language q of None \<Rightarrow> True | Some l \<Rightarrow> language d = l))"

text \<open>
  Sorting on \<open>publishedAt: -1\<close>: dates by their milliseconds, a document
  without a valid date below all of them. The order among equal keys is the
  store's choice; the model keeps them in the order they had (a stable sort),
  so that sorting on a second key first gives the two-key sorts of the code.
\<close>

definition published_key :: "news_doc \<Rightarrow> int option" where
  "published_key d = (case publishedAt d of InvalidDate \<Rightarrow> None | Date t \<Rightarrow> Some t)"

definition sort_desc :: "('a \<Rightarrow> 'k::linorder) \<Rightarrow> 'a list \<Rightarrow> 'a list" where
  "sort_desc f xs = rev (sort_key f (rev xs))"

definition limit_docs :: "nat \<Rightarrow> 'a list \<Rightarrow> 'a list" where
  \<comment> \<open>\<open>.limit(n)\<close>; \<open>0\<close> is no limit\<close>
  "limit_docs n xs = (if n = 0 then xs else take n xs)"

record news_page =
  r_success :: bool
  r_totalResults :: nat
  r_articles :: "news_doc list"
  r_page :: nat
  r_totalPages :: "nat option"
  r_source :: string

text \<open>
  \<open>getNewsFromDB(filters, limit = 50, page = 1)\<close>. A page of \<open>0\<close> makes the
  skip negative, which the store refuses; \<open>Math.ceil(total / limit)\<close> is not
  a number of pages when \<open>limit\<close> is \<open>0\<close>.
\<close>

definition getNewsFromDB ::
  "env \<Rightarrow> filters \<Rightarrow> nat \<Rightarrow> nat \<Rightarrow> system \<Rightarrow> (error + news_page) \<times> system" where
  "getNewsFromDB e f limit page s =
     (if \<not> store_online e then (Inl StoreUnavailable, s)
      else if page = 0 \<and> 0 < limit then (Inl BadQuery, s)
      else
        (Inr \<lparr> r_success = True,
               r_totalResults = length (filter (matches (build_query f)) (store s)),
               r_articles =
                 limit_docs limit
                   (drop ((page - 1) * limit)
                      (sort_desc published_key (filter (matches (build_query f)) (store s)))),
               r_page = page,
               r_totalPages =
                 (if limit = 0 then None
                  else Some ((length (filter (matches (build_query f)) (store s)) + limit - 1)
                             div limit)),
               r_source = ''database'' \<rparr>,
         s))"

definition getLatestNews ::
  "env \<Rightarrow> filters \<Rightarrow> system \<Rightarrow> (error + news_page) \<times> system" where
  "getLatestNews e f s = getNewsFromDB e f 50 1 s"

definition getNewsByCategory ::
  "env \<Rightarrow> string \<Rightarrow> filters \<Rightarrow> system \<Rightarrow> (error + news_page) \<times> system" where
  "getNewsByCategory e cat f s = getLatestNews e (f \<lparr> f_category := Str cat \<rparr>) s"

text \<open>
  \<open>News.findRecent(hours, {limit, skip})\<close>, the model's static for recent
  articles.
\<close>

definition published_since :: "int \<Rightarrow> news_doc \<Rightarrow> bool" where
  "published_since t d = (case publishedAt d of InvalidDate \<Rightarrow> False | Date p \<Rightarrow> t \<le> p)"

definition findRecent :: "env \<Rightarrow> int \<Rightarrow> nat \<Rightarrow> nat \<Rightarrow> news_doc list \<Rightarrow> news_doc list" where
  "findRecent e hours limit skip ds =
     limit_docs limit
       (drop skip
          (sort_desc published_key
             (filter (\<lambda>d. published_since (now e - hours * 60 * 60 * 1000) d \<and>
                          \<not> isDeleted d \<and> \<not> duplicate (extras d)) ds)))"

record news_list =
  l_success :: bool
  l_totalResults :: nat
  l_articles :: "news_doc list"
  l_source :: string

text \<open>
  \<open>searchNews\<close> calls \<open>News.searchArticles(query, 100)\<close>: the second
  argument is a number, its \<open>limit\<close>, \<open>skip\<close> and \<open>lean\<close> are undefined,
  so the defaults 20, 0 and \<open>true\<close> apply. The sort is on the text score,
  then on \<open>publishedAt\<close>, both descending.
\<close>

definition searchArticles :: "env \<Rightarrow> string \<Rightarrow> nat \<Rightarrow> nat \<Rightarrow> news_doc list \<Rightarrow> news_doc list" where
  "searchArticles e searchQuery limit skip ds =
     limit_docs limit
       (drop skip
          (sort_desc (\<lambda>d. text_score e searchQuery d)
             (sort_desc published_key
                (filter (\<lambda>d. 0 < text_score e searchQuery d \<and>
                             \<not> isDeleted d \<and> \<not> duplicate (extras d)) ds))))"

definition searchNews ::
  "env \<Rightarrow> string \<Rightarrow> filters \<Rightarrow> system \<Rightarrow> (error + news_list) \<times> system" where
  "searchNews e q f s =
     (if \<not> store_online e then (Inl StoreUnavailable, s)
      else
        (Inr \<lparr> l_success = True,
               l_totalResults = length (searchArticles e q 20 0 (store s)),
               l_articles = searchArticles e q 20 0 (store s),
               l_source = ''database'' \<rparr>,
         s))"

definition getTrendingNews ::
  "env \<Rightarrow> nat \<Rightarrow> system \<Rightarrow> (error + news_list) \<times> system" where
  "getTrendingNews e limit s =
     (if \<not> store_online e then (Inl StoreUnavailable, s)
      else
        (Inr \<lparr> l_success = True,
               l_totalResults =
                 length (limit_docs limit
                           (sort_desc published_key (sort_desc fetchedAt (store s)))),
               l_articles =
                 limit_docs limit (sort_desc published_key (sort_desc fetchedAt (store s))),
               l_source = ''database'' \<rparr>,
         s))"

record source_entry =
  se_id :: "string option"
  se_name :: string
  se_articleCount :: nat

record sources_result =
  sr_success :: bool
  sr_totalResults :: nat
  sr_sources :: "source_entry list"

definition group_sources :: "news_doc list \<Rightarrow> source_entry list" where
  \<comment> \<open>\<open>$group\<close> on \<open>source.id\<close> with \<open>$first\<close> of the name and a count\<close>
  "group_sources ds =
     map (\<lambda>k. \<lparr> se_id = k,
                 se_name = (case filter (\<lambda>d. source_id d = k) ds of
                              [] \<Rightarrow> [] | d # rest \<Rightarrow> source_name d),
                 se_articleCount = length (filter (\<lambda>d. source_id d = k) ds) \<rparr>)
         (remdups (map source_id ds))"

definition getSources ::
  "env \<Rightarrow> filters \<Rightarrow> system \<Rightarrow> (error + sources_result) \<times> system" where
  "getSources e f s =
     (if \<not> store_online e then (Inl StoreUnavailable, s)
      else
        (Inr \<lparr> sr_success = True,
               sr_totalResults =
                 length (group_sources (filter (matches (build_query f)) (store s))),
               sr_sources =
                 sort_desc se_articleCount
                   (group_sources (filter (matches (build_query f)) (store s))) \<rparr>,
         s))"

record stats_result =
  st_total :: nat
  st_newsDataIo :: nat
  st_newsApiOrg :: nat
  st_recentArticles :: nat

definition getStats :: "env \<Rightarrow> system \<Rightarrow> (error + stats_result) \<times> system" where
  "getStats e s =
     (if \<not> store_online e then (Inl StoreUnavailable, s)
      else
        (Inr \<lparr> st_total = length (store s),
               st_newsDataIo = length (filter (\<lambda>d. sourceApi d = ''newsdata.io'') (store s)),
               st_newsApiOrg = length (filter (\<lambda>d. sourceApi d = ''newsapi.org'') (store s)),
               st_recentArticles =
                 length (filter (\<lambda>d. now e - 24 * 60 * 60 * 1000 \<le> fetchedAt d) (store s)) \<rparr>,
         s))"

section \<open>Example data\<close>

text \<open>Concrete articles, environments and states, used where a statement is run.\<close>

definition no_dates :: "string \<Rightarrow> int option" where
  "no_dates text = None"

definition iso_dates :: "string \<Rightarrow> int option" where
  "iso_dates text =
     (if text = ''2024-01-01T00:00:00Z'' then Some 1704067200000
      else if text = ''2024-01-02T00:00:00Z'' then Some 1704153600000
      else None)"

definition empty_id_a :: newsdata_article where
  "empty_id_a =
     blank_newsdata \<lparr> nd_article_id := Str [], nd_link := Str ''https://example.com/a'' \<rparr>"

definition empty_id_b :: newsdata_article where
  "empty_id_b =
     blank_newsdata \<lparr> nd_article_id := Str [], nd_link := Str ''https://example.com/b'' \<rparr>"

definition raw_a1 :: newsdata_article where
  "raw_a1 =
     blank_newsdata \<lparr> nd_article_id := Str ''a1'', nd_title := Str ''Markets open'',
       nd_link := Str ''https://example.com/a1'', nd_pubDate := Str ''2024-01-01T00:00:00Z'' \<rparr>"

definition raw_a2 :: newsdata_article where
  "raw_a2 =
     blank_newsdata \<lparr> nd_article_id := Str ''a2'', nd_title := Str ''Rates hold'',
       nd_link := Str ''https://example.com/a2'', nd_pubDate := Str ''2024-01-02T00:00:00Z'' \<rparr>"

definition raw_b1 :: newsapi_article where
  "raw_b1 =
     blank_newsapi \<lparr> na_title := Str ''Chip launch'', na_url := Str ''https://example.org/b1'',
       na_publishedAt := Str ''2024-01-02T00:00:00Z'' \<rparr>"

definition raw_untitled :: newsapi_article where
  "raw_untitled =
     blank_newsapi \<lparr> na_title := Null, na_url := Str ''https://example.org/u'',
       na_publishedAt := Str ''2024-01-01T00:00:00Z'' \<rparr>"

definition sample_article :: article where
  "sample_article = normalizeNewsApiOrgArticle iso_dates raw_b1 [''business''] [''in'']"

text \<open>An environment in which both providers fail; the store is reachable.\<close>

definition quiet_env :: env where
  "quiet_env =
     \<lparr> newsdata_http = (\<lambda>c. Inl NoResponse), newsapi_http = (\<lambda>c. Inl NoResponse),
       date_parse = iso_dates, store_online = True, on_cast_error = SkipOperation,
       text_score = (\<lambda>q d. 0), now_store = 1000, now = 2000 \<rparr>"

definition late_env :: env where
  "late_env = quiet_env \<lparr> now_store := 5000, now := 6000 \<rparr>"

text \<open>
  NewsData.io answers the first MORNING parameter set with two articles,
  NewsAPI.org answers its first one with one article; every other answer is an
  empty list.
\<close>

definition morning_env :: env where
  "morning_env =
     quiet_env
       \<lparr> newsdata_http :=
           (\<lambda>c. if c = nd_cfg ''business'' (Some ''in'')
                then Inr \<lparr> body_status = ''success'', body_results = Some [raw_a1, raw_a2] \<rparr>
                else Inr \<lparr> body_status = ''success'', body_results = Some [] \<rparr>),
         newsapi_http :=
           (\<lambda>c. if c = na_cfg ''in'' (Some ''business'')
                then Inr \<lparr> body_articles = Some [raw_b1] \<rparr>
                else Inr \<lparr> body_articles = Some [] \<rparr>) \<rparr>"


definition untitled_env :: env where
  "untitled_env =
     quiet_env
       \<lparr> newsapi_http :=
           (\<lambda>c. if c = na_cfg ''in'' (Some ''business'')
                then Inr \<lparr> body_articles = Some [raw_untitled] \<rparr>
                else Inl NoResponse) \<rparr>"


definition deleted_doc :: news_doc where
  "deleted_doc = (new_doc 1000 sample_article) \<lparr> isDeleted := True, deletedAt := Some 1500 \<rparr>"

definition deleted_system :: system where
  "deleted_system = initial_system \<lparr> store := [deleted_doc] \<rparr>"

definition no_filters :: filters where
  "no_filters = \<lparr> f_category = Undefined, f_country = Undefined, f_language = Undefined \<rparr>"

definition stored_docs :: "error + news_doc list \<Rightarrow> news_doc list" where
  "stored_docs r = (case r of Inl err \<Rightarrow> [] | Inr ds \<Rightarrow> ds)"

section \<open>Auxiliary notions for the statements\<close>

text \<open>What one NewsAPI.org parameter set contributes to a slot.\<close>

definition newsapi_articles :: "env \<Rightarrow> fetch_config \<Rightarrow> article list" where
  "newsapi_articles e config = fst (fetchFromNewsApiOrg e config [])"

text \<open>
  The store takes a batch: it is reachable, and it skips an operation it
  cannot cast or the batch holds none.
\<close>

definition accepts :: "env \<Rightarrow> article list \<Rightarrow> bool" where
  "accepts e ops =
     (store_online e \<and> (on_cast_error e = SkipOperation \<or> list_all castable ops))"


text \<open>
  Two environments show the read service the same store: reachability, text
  index and clock agree, whatever the providers would answer.
\<close>

definition same_store_view :: "env \<Rightarrow> env \<Rightarrow> bool" where
  "same_store_view e e' =
     (store_online e' = store_online e \<and> text_score e' = text_score e \<and> now e' = now e)"

text \<open>
  An article whose date does not parse, and an environment in which
  NewsAPI.org returns it together with \<open>raw_b1\<close>.
\<close>

definition raw_undated :: newsapi_article where
  "raw_undated =
     blank_newsapi \<lparr> na_title := Str ''Undated'', na_url := Str ''https://example.org/x'',
       na_publishedAt := Str ''yesterday'' \<rparr>"

definition undated_env :: env where
  "undated_env =
     quiet_env
       \<lparr> newsapi_http :=
           (\<lambda>c. if c = na_cfg ''in'' (Some ''business'')
                then Inr \<lparr> body_articles = Some [raw_undated, raw_b1] \<rparr>
                else Inl NoResponse) \<rparr>"





section \<open>Facts about the normalizers and the store\<close>

lemma newsdata_articleId:
  "articleId (normalizeNewsDataArticle p a) =
     ''newsdata_'' @ (if truthy (nd_article_id a) then to_string (nd_article_id a)
                      else to_string (nd_link a))"
  by (simp add: normalizeNewsDataArticle_def js_or_def)

lemma newsapi_articleId:
  "articleId (normalizeNewsApiOrgArticle p b cat ctry) = ''newsapi_'' @ to_string (na_url b)"
  by (simp add: normalizeNewsApiOrgArticle_def)

lemma trim_clean:
  "s \<noteq> [] \<Longrightarrow> \<not> is_space (hd s) \<Longrightarrow> \<not> is_space (last s) \<Longrightarrow> trim s = s"
proof -
  assume ne: "s \<noteq> []" and h: "\<not> is_space (hd s)" and l: "\<not> is_space (last s)"
  from ne h have front: "dropWhile is_space s = s"
    by (cases s) simp_all
  from ne l have rear: "dropWhile is_space (rev s) = rev s"
    by (cases "rev s") (simp_all add: last_rev [symmetric] hd_rev)
  show ?thesis by (simp add: trim_def front rear)
qed

lemma articleId_set_fields: "articleId (set_fields t a d) = trim (articleId a)"
  by (simp add: set_fields_def)

lemma articleId_new_doc: "articleId (new_doc t a) = trim (articleId a)"
  by (simp add: new_doc_def)

lemma ids_update_first: "map articleId (update_first t a ds) = map articleId ds"
  by (induction ds) (auto simp: articleId_set_fields)

lemma length_update_first: "length (update_first t a ds) = length ds"
  using ids_update_first [of t a ds] by (metis length_map)

lemma ids_updateOne_upsert:
  "map articleId (docs (updateOne_upsert t st a)) =
     (if trim (articleId a) \<in> set (map articleId (docs st)) then map articleId (docs st)
      else map articleId (docs st) @ [trim (articleId a)])"
  by (simp add: updateOne_upsert_def ids_update_first articleId_new_doc)

lemma distinct_updateOne_upsert:
  "distinct (map articleId (docs st)) \<Longrightarrow>
   distinct (map articleId (docs (updateOne_upsert t st a)))"
  by (simp add: ids_updateOne_upsert)

lemma member_updateOne_upsert:
  "articleId ` set (docs (updateOne_upsert t st a)) =
     insert (trim (articleId a)) (articleId ` set (docs st))"
proof -
  have "set (map articleId (docs (updateOne_upsert t st a))) =
     insert (trim (articleId a)) (set (map articleId (docs st)))"
    by (auto simp: ids_updateOne_upsert)
  then show ?thesis by (simp only: list.set_map)
qed

lemma distinct_foldl_upsert:
  "distinct (map articleId (docs st)) \<Longrightarrow>
   distinct (map articleId (docs (foldl (updateOne_upsert t) st ops)))"
  by (induction ops arbitrary: st) (simp_all add: distinct_updateOne_upsert)

lemma set_foldl_upsert:
  "articleId ` set (docs (foldl (updateOne_upsert t) st ops)) =
     articleId ` set (docs st) \<union> (\<lambda>a. trim (articleId a)) ` set ops"
  by (induction ops arbitrary: st) (simp_all add: member_updateOne_upsert)






















section \<open>Facts about the fetch loops\<close>

lemma fetchFromNewsData_empty:
  "fetchFromNewsData e config log = ([], log @ [NewsDataCall config])"
  by (simp add: fetchFromNewsData_def NewsApiService_getLatestNews_def split: sum.splits)

lemma newsdata_loop_result:
  "newsdata_loop e configs acc log = (acc, log @ map NewsDataCall configs)"
  by (induction configs arbitrary: acc log) (simp_all add: fetchFromNewsData_empty)

lemma fetchFromNewsApiOrg_result:
  "fetchFromNewsApiOrg e config log = (newsapi_articles e config, log @ [NewsApiOrgCall config])"
  by (simp add: newsapi_articles_def fetchFromNewsApiOrg_def getTopHeadlines_def
      split: sum.splits option.splits)

lemma newsapi_loop_result:
  "newsapi_loop e configs acc log =
     (acc @ concat (map (newsapi_articles e) configs), log @ map NewsApiOrgCall configs)"
  by (induction configs arbitrary: acc log) (simp_all add: fetchFromNewsApiOrg_result)

lemma fetch_slot_result:
  "fetch_slot e sch log =
     (concat (map (newsapi_articles e) (newsApiConfig sch)),
      log @ map NewsDataCall (newsDataConfig sch) @ map NewsApiOrgCall (newsApiConfig sch))"
  by (simp add: fetch_slot_def newsdata_loop_result newsapi_loop_result)


lemma morning_lookup:
  "lookup_schedule ''MORNING'' = Own
       \<lparr> sched_time = ''0 9 * * *'',
         sched_description = ''Morning fetch - Business & Technology news'',
         newsDataConfig =
           [nd_cfg ''business'' (Some ''in''), nd_cfg ''technology'' (Some ''in''),
            nd_cfg ''business'' (Some ''us''), nd_cfg ''technology'' (Some ''us'')],
         newsApiConfig =
           [na_cfg ''in'' (Some ''business''), na_cfg ''in'' (Some ''technology''),
            na_cfg ''us'' (Some ''business''), na_cfg ''us'' (Some ''technology'')] \<rparr>"
  by (simp add: lookup_schedule_def FETCH_SCHEDULE_def)

lemma na_cfg_distinct:
  "na_cfg ''in'' (Some ''technology'') \<noteq> na_cfg ''in'' (Some ''business'')"
  "na_cfg ''us'' (Some ''business'') \<noteq> na_cfg ''in'' (Some ''business'')"
  "na_cfg ''us'' (Some ''technology'') \<noteq> na_cfg ''in'' (Some ''business'')"
  by (simp_all add: na_cfg_def)

lemma sample_article_date: "publishedAt sample_article = Date 1704153600000"
  by (simp add: sample_article_def normalizeNewsApiOrgArticle_def raw_b1_def blank_newsapi_def
        iso_dates_def)

lemma sample_key: "trim (articleId sample_article) = ''newsapi_https://example.org/b1''"
  by (simp add: sample_article_def newsapi_articleId raw_b1_def blank_newsapi_def trim_def
      is_space_def)

lemma sample_id: "articleId sample_article = ''newsapi_https://example.org/b1''"
  by (simp add: sample_article_def newsapi_articleId raw_b1_def blank_newsapi_def)

lemma example_envs_online: "store_online quiet_env" "store_online late_env"
  by (simp_all add: quiet_env_def late_env_def)

lemma save_sample:
  "store_online e \<Longrightarrow> saveArticlesToDB e [sample_article] [] =
     Inr (\<lparr> saved = 1, updated = 0 \<rparr>, [new_doc (now_store e) sample_article])"
  by (simp add: saveArticlesToDB_def bulkWrite_def castable_def sample_article_date
      updateOne_upsert_def)

section \<open>Facts about a bulk write the store takes\<close>




lemma save_sample_again:
  "store_online e \<Longrightarrow>
   \<exists>res. saveArticlesToDB e [sample_article] [new_doc t sample_article] =
            Inr (res, [set_fields (now_store e) sample_article (new_doc t sample_article)]) \<and>
          saved res = 0"
  by (simp add: saveArticlesToDB_def bulkWrite_def castable_def sample_article_date
      updateOne_upsert_def articleId_new_doc)

section \<open>The example environments, evaluated\<close>


lemma morning_env_articles:
  "newsapi_articles morning_env (na_cfg ''in'' (Some ''business'')) = [sample_article]"
  "newsapi_articles morning_env (na_cfg ''in'' (Some ''technology'')) = []"
  "newsapi_articles morning_env (na_cfg ''us'' (Some ''business'')) = []"
  "newsapi_articles morning_env (na_cfg ''us'' (Some ''technology'')) = []"
  by (simp_all add: newsapi_articles_def fetchFromNewsApiOrg_def getTopHeadlines_def
      morning_env_def quiet_env_def na_cfg_distinct sample_article_def)
     (simp_all add: na_cfg_def singleton_if_set_def)

lemma untitled_articles:
  "newsapi_articles untitled_env (na_cfg ''in'' (Some ''business'')) =
     [normalizeNewsApiOrgArticle iso_dates raw_untitled [''business''] [''in'']]"
  "newsapi_articles untitled_env (na_cfg ''in'' (Some ''technology'')) = []"
  "newsapi_articles untitled_env (na_cfg ''us'' (Some ''business'')) = []"
  "newsapi_articles untitled_env (na_cfg ''us'' (Some ''technology'')) = []"
  by (simp_all add: newsapi_articles_def fetchFromNewsApiOrg_def getTopHeadlines_def
      untitled_env_def quiet_env_def na_cfg_distinct)
     (simp_all add: na_cfg_def singleton_if_set_def)

lemma quiet_articles: "newsapi_articles quiet_env c = []"
  by (simp add: newsapi_articles_def fetchFromNewsApiOrg_def getTopHeadlines_def quiet_env_def)

lemma run_morning_sample:
  assumes "store_online e"
    "concat (map (newsapi_articles e)
       [na_cfg ''in'' (Some ''business''), na_cfg ''in'' (Some ''technology''),
        na_cfg ''us'' (Some ''business''), na_cfg ''us'' (Some ''technology'')]) = [sample_article]"
  shows "store (executeScheduledFetch e ''MORNING'' initial_system) =
           [new_doc (now_store e) sample_article] \<and>
         fetchStats (executeScheduledFetch e ''MORNING'' initial_system) =
           \<lparr> totalFetches = 1, successfulFetches = 1, failedFetches = 0, articlesSaved = 1 \<rparr> \<and>
         lastFetchTimes (executeScheduledFetch e ''MORNING'' initial_system) ''MORNING'' =
           Some (now e)"
  unfolding executeScheduledFetch_def morning_lookup
  using assms
  by (simp add: fetch_slot_result initial_system_def save_sample count_success_def)

lemma untitled_date:
  "publishedAt (normalizeNewsApiOrgArticle iso_dates raw_untitled [''business''] [''in'']) =
     Date 1704067200000"
  by (simp add: normalizeNewsApiOrgArticle_def raw_untitled_def blank_newsapi_def iso_dates_def)


lemma save_throws_iff:
  "ops \<noteq> [] \<Longrightarrow> isl (saveArticlesToDB e ops ds) \<longleftrightarrow> \<not> accepts e ops"
  by (cases "on_cast_error e") (auto simp: saveArticlesToDB_def bulkWrite_def accepts_def)

section \<open>Facts about \<open>fetchedAt\<close> under the bulk write\<close>

lemma fetchedAt_set_fields: "fetchedAt (set_fields t a d) = fetchedAt d"
  by (simp add: set_fields_def)

lemma fetchedAt_update_first: "map fetchedAt (update_first t a ds) = map fetchedAt ds"
  by (induction ds) (auto simp: fetchedAt_set_fields)

lemma fetchedAt_updateOne_upsert:
  "map fetchedAt (docs (updateOne_upsert t st a)) =
     map fetchedAt (docs st) @ replicate (upsertedCount (updateOne_upsert t st a) - upsertedCount st) t"
  by (simp add: updateOne_upsert_def fetchedAt_update_first new_doc_def)

lemma upsertedCount_mono: "upsertedCount st \<le> upsertedCount (updateOne_upsert t st a)"
  by (simp add: updateOne_upsert_def)

lemma upsertedCount_foldl_mono:
  "upsertedCount st \<le> upsertedCount (foldl (updateOne_upsert t) st ops)"
proof (induction ops arbitrary: st)
  case Nil
  then show ?case by simp
next
  case (Cons a ops)
  from Cons.IH [of "updateOne_upsert t st a"] upsertedCount_mono [of st t a]
  show ?case by simp
qed

lemma fetchedAt_foldl_upsert:
  "map fetchedAt (docs (foldl (updateOne_upsert t) st ops)) =
     map fetchedAt (docs st) @
       replicate (upsertedCount (foldl (updateOne_upsert t) st ops) - upsertedCount st) t"
proof (induction ops arbitrary: st)
  case Nil
  then show ?case by simp
next
  case (Cons a ops)
  let ?st1 = "updateOne_upsert t st a"
  let ?st2 = "foldl (updateOne_upsert t) ?st1 ops"
  have "map fetchedAt (docs ?st2) =
      (map fetchedAt (docs st) @ replicate (upsertedCount ?st1 - upsertedCount st) t) @
        replicate (upsertedCount ?st2 - upsertedCount ?st1) t"
    using Cons.IH [of ?st1] fetchedAt_updateOne_upsert [of t st a] by simp
  also have "\<dots> = map fetchedAt (docs st) @
      replicate ((upsertedCount ?st1 - upsertedCount st) + (upsertedCount ?st2 - upsertedCount ?st1)) t"
    by (simp add: replicate_add)
  also have "(upsertedCount ?st1 - upsertedCount st) + (upsertedCount ?st2 - upsertedCount ?st1) =
      upsertedCount ?st2 - upsertedCount st"
    using upsertedCount_mono [of st t a] upsertedCount_foldl_mono [of ?st1 t ops] by simp
  finally show ?case by simp
qed

lemma ids_prefix_updateOne_upsert:
  "take (length (docs st)) (map articleId (docs (updateOne_upsert t st a))) =
     map articleId (docs st)"
  by (simp add: ids_updateOne_upsert)

lemma length_docs_mono: "length (docs st) \<le> length (docs (updateOne_upsert t st a))"
  by (simp add: updateOne_upsert_def length_update_first)

lemma ids_prefix_foldl_upsert:
  "take (length (docs st)) (map articleId (docs (foldl (updateOne_upsert t) st ops))) =
     map articleId (docs st)"
proof (induction ops arbitrary: st)
  case Nil
  then show ?case by simp
next
  case (Cons a ops)
  let ?st1 = "updateOne_upsert t st a"
  have "take (length (docs st)) (map articleId (docs (foldl (updateOne_upsert t) ?st1 ops))) =
      take (length (docs st))
        (take (length (docs ?st1)) (map articleId (docs (foldl (updateOne_upsert t) ?st1 ops))))"
    using length_docs_mono [of st t a] by (simp add: min_def)
  also have "\<dots> = take (length (docs st)) (map articleId (docs ?st1))"
    by (simp only: Cons.IH)
  also have "\<dots> = map articleId (docs st)"
    by (rule ids_prefix_updateOne_upsert)
  finally show ?case by simp
qed

lemma commit_twice:
  "commit_each [quiet_env, late_env] sample_article [] =
     Inr [set_fields 5000 sample_article (new_doc 1000 sample_article)]"
proof -
  from save_sample_again [OF example_envs_online(2), of 1000] obtain res where
    "saveArticlesToDB late_env [sample_article] [new_doc 1000 sample_article] =
       Inr (res, [set_fields (now_store late_env) sample_article (new_doc 1000 sample_article)])"
    by blast
  moreover have "now_store late_env = 5000" "now_store quiet_env = 1000"
    by (simp_all add: late_env_def quiet_env_def)
  ultimately show ?thesis
    using save_sample [OF example_envs_online(1)] by simp
qed

section \<open>Facts about the read queries\<close>

lemma sort_desc_descending: "sorted (rev (map f (sort_desc f xs)))"
  by (simp add: sort_desc_def rev_map)

lemma set_sort_desc: "set (sort_desc f xs) = set xs"
  by (simp add: sort_desc_def)

lemma descending_drop: "sorted (rev ks) \<Longrightarrow> sorted (rev (drop n ks))"
  by (simp add: rev_drop sorted_wrt_take)

lemma descending_take: "sorted (rev ks) \<Longrightarrow> sorted (rev (take n ks))"
  by (simp add: rev_take sorted_wrt_drop)

lemma descending_drop_map:
  "sorted (rev (map f xs)) \<Longrightarrow> sorted (rev (map f (drop n xs)))"
  using descending_drop [of "map f xs" n] by (simp add: drop_map)

lemma descending_limit: "sorted (rev (map f xs)) \<Longrightarrow> sorted (rev (map f (limit_docs n xs)))"
  using descending_take [of "map f xs" n] by (simp add: limit_docs_def take_map)

lemma set_limit_docs: "set (limit_docs n xs) \<subseteq> set xs"
  by (auto simp: limit_docs_def dest: in_set_takeD)



lemma latest_news_descending:
  assumes "fst (getLatestNews e f s) = Inr p"
  shows "sorted (rev (map published_key (r_articles p)))"
proof (cases "store_online e")
  case False
  with assms show ?thesis by (simp add: getLatestNews_def getNewsFromDB_def)
next
  case True
  with assms have "r_articles p =
      limit_docs 50 (sort_desc published_key (filter (matches (build_query f)) (store s)))"
    by (simp add: getLatestNews_def getNewsFromDB_def) (metis news_page.select_convs(3))
  then show ?thesis
    by (simp add: descending_limit sort_desc_descending)
qed


lemma findRecent_excludes_deleted:
  assumes "d \<in> set (findRecent e hours limit skip ds)"
  shows "\<not> isDeleted d"
proof -
  define kept where "kept = filter (\<lambda>d. published_since (now e - hours * 60 * 60 * 1000) d \<and>
                          \<not> isDeleted d \<and> \<not> duplicate (extras d)) ds"
  from assms have "d \<in> set (limit_docs limit (drop skip (sort_desc published_key kept)))"
    by (simp only: findRecent_def kept_def)
  then have "d \<in> set (drop skip (sort_desc published_key kept))"
    by (rule subsetD [OF set_limit_docs])
  then have "d \<in> set (sort_desc published_key kept)"
    by (rule in_set_dropD)
  then have "d \<in> set kept"
    by (simp only: set_sort_desc)
  then show ?thesis by (simp add: kept_def)
qed

lemma findRecent_descending:
  "sorted (rev (map published_key (findRecent e hours limit skip ds)))"
proof -
  define kept where "kept = filter (\<lambda>d. published_since (now e - hours * 60 * 60 * 1000) d \<and>
                          \<not> isDeleted d \<and> \<not> duplicate (extras d)) ds"
  have "sorted (rev (map published_key (sort_desc published_key kept)))"
    by (rule sort_desc_descending)
  then have "sorted (rev (map published_key (drop skip (sort_desc published_key kept))))"
    by (rule descending_drop_map)
  then have "sorted (rev (map published_key
      (limit_docs limit (drop skip (sort_desc published_key kept)))))"
    by (rule descending_limit)
  then show ?thesis by (simp only: findRecent_def kept_def)
qed

lemma sort_desc_single: "sort_desc f [x] = [x]"
  by (simp add: sort_desc_def)

lemma deleted_doc_flag: "isDeleted deleted_doc"
  by (simp add: deleted_doc_def)

lemma matches_no_filters: "matches (build_query no_filters) d"
  by (simp add: matches_def build_query_def no_filters_def or_null_def)

section \<open>Facts about names that are not slots\<close>

lemma unconfigured_run:
  assumes "map_of FETCH_SCHEDULE name = None"
  shows "store (executeScheduledFetch e name s) = store s \<and>
         upstream_calls (executeScheduledFetch e name s) = upstream_calls s \<and>
         lastFetchTimes (executeScheduledFetch e name s) = lastFetchTimes s"
  using assms by (simp add: executeScheduledFetch_def lookup_schedule_def)

lemma constructor_run:
  "fetchStats (executeScheduledFetch e ''constructor'' s) = count_failure (fetchStats s)"
  by (simp add: executeScheduledFetch_def lookup_schedule_def FETCH_SCHEDULE_def
      object_prototype_keys_def)

section \<open>Facts about invalid dates under the bulk write\<close>

lemma set_update_first:
  "set (update_first t a ds) \<subseteq> set ds \<union> set_fields t a ` set ds"
  by (induction ds) auto

lemma publishedAt_set_fields: "publishedAt (set_fields t a d) = publishedAt a"
  by (simp add: set_fields_def)

lemma publishedAt_new_doc: "publishedAt (new_doc t a) = publishedAt a"
  by (simp add: new_doc_def)

lemma invalid_date_kept_updateOne:
  assumes "castable a" "d \<in> set (docs (updateOne_upsert t st a))"
    "publishedAt d = InvalidDate"
  shows "d \<in> set (docs st)"
proof (cases "trim (articleId a) \<in> set (map articleId (docs st))")
  case True
  with assms(2) have "d \<in> set (update_first t a (docs st))"
    by (simp add: updateOne_upsert_def)
  with set_update_first have "d \<in> set (docs st) \<or> d \<in> set_fields t a ` set (docs st)"
    by blast
  moreover have "d \<notin> set_fields t a ` set (docs st)"
    using assms(1,3) by (auto simp: publishedAt_set_fields castable_def)
  ultimately show ?thesis by blast
next
  case False
  with assms(2) have "d \<in> set (docs st) \<or> d = new_doc t a"
    by (auto simp: updateOne_upsert_def)
  moreover have "d \<noteq> new_doc t a"
    using assms(1,3) by (auto simp: publishedAt_new_doc castable_def)
  ultimately show ?thesis by blast
qed

lemma invalid_date_kept_foldl:
  assumes "list_all castable ops" "d \<in> set (docs (foldl (updateOne_upsert t) st ops))"
    "publishedAt d = InvalidDate"
  shows "d \<in> set (docs st)"
  using assms
proof (induction ops arbitrary: st)
  case Nil
  then show ?case by simp
next
  case (Cons a ops)
  from Cons.prems(1) have ca: "castable a" and rest: "list_all castable ops" by simp_all
  from Cons.prems(2) have "d \<in> set (docs (foldl (updateOne_upsert t) (updateOne_upsert t st a) ops))"
    by simp
  from Cons.IH [OF rest this Cons.prems(3)] have "d \<in> set (docs (updateOne_upsert t st a))" .
  from invalid_date_kept_updateOne [OF ca this Cons.prems(3)] show ?case .
qed

lemma invalid_date_kept_save:
  assumes "saveArticlesToDB e articles ds = Inr (res, ds')" "d \<in> set ds'"
    "publishedAt d = InvalidDate"
  shows "d \<in> set ds"
proof (cases "articles = []")
  case True
  with assms show ?thesis by (auto simp: saveArticlesToDB_def)
next
  case False
  with assms(1) have "ds' = docs (foldl (updateOne_upsert (now_store e))
                  \<lparr> docs = ds, upsertedCount = 0, modifiedCount = 0 \<rparr> (filter castable articles))"
    by (auto simp: saveArticlesToDB_def bulkWrite_def split: if_splits sum.splits)
  moreover have "list_all castable (filter castable articles)"
    by (simp add: list_all_iff)
  ultimately show ?thesis
    using invalid_date_kept_foldl [of "filter castable articles" d "now_store e"
        "\<lparr> docs = ds, upsertedCount = 0, modifiedCount = 0 \<rparr>"] assms(2,3)
    by simp
qed

lemma invalid_date_kept_run:
  assumes "d \<in> set (store (executeScheduledFetch e name s))" "publishedAt d = InvalidDate"
  shows "d \<in> set (store s)"
proof (cases "lookup_schedule name")
  case (Own sch)
  obtain arts log where f: "fetch_slot e sch (upstream_calls s) = (arts, log)"
    by (cases "fetch_slot e sch (upstream_calls s)")
  show ?thesis
  proof (cases "arts = []")
    case True
    with assms(1) Own f show ?thesis by (simp add: executeScheduledFetch_def)
  next
    case False
    show ?thesis
    proof (cases "saveArticlesToDB e arts (store s)")
      case (Inl err)
      with assms(1) Own f False show ?thesis by (simp add: executeScheduledFetch_def)
    next
      case (Inr r)
      obtain res ds' where r: "r = (res, ds')" by (cases r)
      with assms(1) Own f False Inr have "d \<in> set ds'"
        by (simp add: executeScheduledFetch_def)
      from invalid_date_kept_save [OF Inr [unfolded r] this assms(2)] show ?thesis .
    qed
  qed
next
  case Inherited
  with assms(1) show ?thesis by (simp add: executeScheduledFetch_def)
next
  case Absent
  with assms(1) show ?thesis by (simp add: executeScheduledFetch_def)
qed


section \<open>Facts about a record the store cannot cast\<close>









section \<open>Idempotent upsert (C1)\<close>




section \<open>Read isolation (C2)\<close>

text \<open>
  C2. Each read operation of the service (latest news, search, trending, by
  category, sources, stats) returns the state it was given, so the log of
  upstream calls is as before and no client was called; and its result is
  the same under any two environments that show it the same store
  (reachability, text index, and the clock that \<open>getStats\<close> reads) on any
  two states with the same documents, whatever the two providers would
  answer and whatever was called before.
\<close>

theorem read_isolation:
  "snd (getLatestNews e f s) = s \<and> snd (searchNews e q f s) = s \<and>
   snd (getTrendingNews e n s) = s \<and> snd (getNewsByCategory e cat f s) = s \<and>
   snd (getSources e f s) = s \<and> snd (getStats e s) = s \<and>
   (same_store_view e e' \<and> store s' = store s \<longrightarrow>
      fst (getLatestNews e' f s') = fst (getLatestNews e f s) \<and>
      fst (searchNews e' q f s') = fst (searchNews e q f s) \<and>
      fst (getTrendingNews e' n s') = fst (getTrendingNews e n s) \<and>
      fst (getNewsByCategory e' cat f s') = fst (getNewsByCategory e cat f s) \<and>
      fst (getSources e' f s') = fst (getSources e f s) \<and>
      fst (getStats e' s') = fst (getStats e s))"
proof -
  have unchanged: "snd (getLatestNews e f s) = s" "snd (searchNews e q f s) = s"
    "snd (getTrendingNews e n s) = s" "snd (getNewsByCategory e cat f s) = s"
    "snd (getSources e f s) = s" "snd (getStats e s) = s"
    by (simp_all add: getLatestNews_def getNewsByCategory_def getNewsFromDB_def searchNews_def
        getTrendingNews_def getSources_def getStats_def)
  have same: "fst (getLatestNews e' f s') = fst (getLatestNews e f s) \<and>
      fst (searchNews e' q f s') = fst (searchNews e q f s) \<and>
      fst (getTrendingNews e' n s') = fst (getTrendingNews e n s) \<and>
      fst (getNewsByCategory e' cat f s') = fst (getNewsByCategory e cat f s) \<and>
      fst (getSources e' f s') = fst (getSources e f s) \<and>
      fst (getStats e' s') = fst (getStats e s)"
    if "same_store_view e e'" "store s' = store s"
    using that
    by (simp add: same_store_view_def getLatestNews_def getNewsByCategory_def getNewsFromDB_def
        searchNews_def searchArticles_def getTrendingNews_def getSources_def getStats_def)
  from unchanged same show ?thesis by blast
qed

text \<open>
  Run on the store with one document, under \<open>morning_env\<close> and
  \<open>quiet_env\<close>, whose providers answer differently.
\<close>

theorem read_isolation_witness:
  "fst (getLatestNews quiet_env no_filters deleted_system) =
     fst (getLatestNews morning_env no_filters deleted_system) \<and>
   fst (getStats quiet_env deleted_system) = fst (getStats morning_env deleted_system) \<and>
   upstream_calls (snd (getLatestNews morning_env no_filters deleted_system)) = [] \<and>
   upstream_calls (snd (searchNews morning_env ''chip'' no_filters deleted_system)) = []"
proof -
  have v: "same_store_view morning_env quiet_env"
    by (simp add: same_store_view_def morning_env_def)
  show ?thesis
    using read_isolation [where e = morning_env and e' = quiet_env and f = no_filters
        and s = deleted_system and s' = deleted_system and q = "''chip''"] v
    by (simp add: deleted_system_def initial_system_def)
qed

section \<open>Dedup key derivation (C3)\<close>

text \<open>
  The claim as worded fails on an empty native id: the code falls through to
  the URL on every falsy id (\<open>||\<close>), the formula of the claim only on a
  missing one (\<open>??\<close>). Two NewsData.io articles with the same (empty) native
  id and different URLs get different keys, and the key is not the one the
  formula gives.
\<close>

theorem dedup_key_counterexample:
  "nd_article_id empty_id_a = nd_article_id empty_id_b \<and>
   articleId (normalizeNewsDataArticle no_dates empty_id_a) \<noteq>
     articleId (normalizeNewsDataArticle no_dates empty_id_b) \<and>
   articleId (normalizeNewsDataArticle no_dates empty_id_a) \<noteq>
     articleId_spec ''newsdata'' (nd_article_id empty_id_a) (nd_link empty_id_a)"
  by (simp add: newsdata_articleId empty_id_a_def empty_id_b_def blank_newsdata_def
        articleId_spec_def nullish_or_def)

text \<open>
  C3, amended. The key is \<open>"newsdata_" + (article_id || link)\<close> for
  NewsData.io and \<open>"newsapi_" + url\<close> for NewsAPI.org (which has no native
  id); it is the formula of the specification whenever the native id is not
  the empty string. Two NewsData.io articles with the same non-empty native
  id get the same key; so do two whose native id is missing, \<open>null\<close> or
  empty and whose URL is the same; so do two NewsAPI.org articles with the
  same URL. A NewsData.io key and a NewsAPI.org key are never equal.
\<close>

theorem dedup_key_derivation:
  "articleId (normalizeNewsDataArticle p a) =
     ''newsdata_'' @ to_string (js_or (nd_article_id a) (nd_link a)) \<and>
   articleId (normalizeNewsApiOrgArticle p b cat ctry) = ''newsapi_'' @ to_string (na_url b) \<and>
   (nd_article_id a \<noteq> Str [] \<longrightarrow>
      articleId (normalizeNewsDataArticle p a) =
        articleId_spec ''newsdata'' (nd_article_id a) (nd_link a)) \<and>
   articleId (normalizeNewsApiOrgArticle p b cat ctry) =
     articleId_spec ''newsapi'' Undefined (na_url b) \<and>
   (truthy (nd_article_id a) \<and> nd_article_id a' = nd_article_id a \<longrightarrow>
      articleId (normalizeNewsDataArticle p' a') = articleId (normalizeNewsDataArticle p a)) \<and>
   (\<not> truthy (nd_article_id a) \<and> \<not> truthy (nd_article_id a') \<and> nd_link a' = nd_link a \<longrightarrow>
      articleId (normalizeNewsDataArticle p' a') = articleId (normalizeNewsDataArticle p a)) \<and>
   (na_url b' = na_url b \<longrightarrow>
      articleId (normalizeNewsApiOrgArticle p' b' cat' ctry') =
        articleId (normalizeNewsApiOrgArticle p b cat ctry)) \<and>
   articleId (normalizeNewsDataArticle p a) \<noteq>
     articleId (normalizeNewsApiOrgArticle p' b' cat' ctry')"
proof -
  have spec_a: "nd_article_id a \<noteq> Str [] \<Longrightarrow>
      articleId (normalizeNewsDataArticle p a) =
        articleId_spec ''newsdata'' (nd_article_id a) (nd_link a)"
    by (cases "nd_article_id a")
       (simp_all add: newsdata_articleId articleId_spec_def nullish_or_def)
  show ?thesis
    using spec_a
    by (simp add: newsdata_articleId newsapi_articleId js_or_def articleId_spec_def
          nullish_or_def)
qed

text \<open>
  Run on concrete articles: \<open>raw_a1\<close> against itself under another date
  parser (same native id), the two articles without a native id against
  themselves (same URL), \<open>raw_b1\<close> against itself under other request
  filters, and \<open>raw_a1\<close> against \<open>raw_b1\<close>.
\<close>

theorem dedup_key_derivation_witness:
  "articleId (normalizeNewsDataArticle iso_dates raw_a1) = ''newsdata_a1'' \<and>
   articleId (normalizeNewsDataArticle iso_dates raw_a1) =
     articleId_spec ''newsdata'' (nd_article_id raw_a1) (nd_link raw_a1) \<and>
   articleId (normalizeNewsDataArticle no_dates raw_a1) =
     articleId (normalizeNewsDataArticle iso_dates raw_a1) \<and>
   articleId (normalizeNewsDataArticle no_dates empty_id_a) =
     articleId (normalizeNewsDataArticle iso_dates empty_id_a) \<and>
   articleId (normalizeNewsApiOrgArticle no_dates raw_b1 [] []) =
     articleId (normalizeNewsApiOrgArticle iso_dates raw_b1 [''business''] [''in'']) \<and>
   articleId (normalizeNewsDataArticle iso_dates raw_a1) \<noteq>
     articleId (normalizeNewsApiOrgArticle iso_dates raw_b1 [''business''] [''in''])"
  using dedup_key_derivation [where p = iso_dates and a = raw_a1 and b = raw_b1
      and cat = "[''business'']" and ctry = "[''in'']" and p' = no_dates and a' = raw_a1
      and b' = raw_b1 and cat' = "[]" and ctry' = "[]"]
    dedup_key_derivation [where p = iso_dates and a = empty_id_a and b = raw_b1
      and cat = "[''business'']" and ctry = "[''in'']" and p' = no_dates and a' = empty_id_a
      and b' = raw_b1 and cat' = "[]" and ctry' = "[]"]
  by (simp add: newsdata_articleId newsapi_articleId articleId_spec_def nullish_or_def
        raw_a1_def raw_b1_def empty_id_a_def blank_newsdata_def blank_newsapi_def js_or_def)

section \<open>Basic ingestion (C4)\<close>

text \<open>
  C4, run on the scenario of the claim. NewsData.io answers the first MORNING
  parameter set with two valid articles and NewsAPI.org answers its first one
  with one valid article. After \<open>executeScheduledFetch "MORNING"\<close> on the
  initial state the store holds one record, the NewsAPI.org one, and
  \<open>articlesSaved\<close> is 1, not 3: \<open>fetchFromNewsData\<close> reads \<open>results\<close> on
  the wrapper \<open>{success, data}\<close>, where the key does not exist, and returns
  no article (\<open>fetchFromNewsData_empty\<close>). \<open>lastFetchTimes\<close> is set.
\<close>

theorem basic_ingestion_loses_newsdata:
  "newsdata_http morning_env (nd_cfg ''business'' (Some ''in'')) =
     Inr \<lparr> body_status = ''success'', body_results = Some [raw_a1, raw_a2] \<rparr> \<and>
   newsapi_http morning_env (na_cfg ''in'' (Some ''business'')) =
     Inr \<lparr> body_articles = Some [raw_b1] \<rparr> \<and>
   map articleId (store (executeScheduledFetch morning_env ''MORNING'' initial_system)) =
     [''newsapi_https://example.org/b1''] \<and>
   articlesSaved (fetchStats (executeScheduledFetch morning_env ''MORNING'' initial_system)) = 1 \<and>
   lastFetchTimes (executeScheduledFetch morning_env ''MORNING'' initial_system) ''MORNING'' =
     Some 2000"
proof -
  have on: "store_online morning_env" by (simp add: morning_env_def quiet_env_def)
  from run_morning_sample [OF on] show ?thesis
    by (simp add: morning_env_articles articleId_new_doc sample_key)
       (simp add: morning_env_def quiet_env_def)
qed

section \<open>Required-field rejection (C5)\<close>

text \<open>
  The claim as worded fails on an article without a title. NewsAPI.org answers
  the first MORNING parameter set with one article whose \<open>title\<close> is
  \<open>null\<close> (URL and date are fine). The normalizer returns a record for it,
  with that title, and after \<open>executeScheduledFetch "MORNING"\<close> the store
  holds it.
\<close>

theorem untitled_article_counterexample:
  "na_title raw_untitled = Null \<and>
   title (normalizeNewsApiOrgArticle iso_dates raw_untitled [''business''] [''in'']) = Null \<and>
   map articleId (store (executeScheduledFetch untitled_env ''MORNING'' initial_system)) =
     [''newsapi_https://example.org/u''] \<and>
   map title (store (executeScheduledFetch untitled_env ''MORNING'' initial_system)) = [Null]"
proof -
  let ?u = "normalizeNewsApiOrgArticle iso_dates raw_untitled [''business''] [''in'']"
  have save: "saveArticlesToDB untitled_env [?u] [] =
      Inr (\<lparr> saved = 1, updated = 0 \<rparr>, [new_doc 1000 ?u])"
    by (simp add: saveArticlesToDB_def bulkWrite_def castable_def untitled_date
        updateOne_upsert_def untitled_env_def quiet_env_def)
  have run: "store (executeScheduledFetch untitled_env ''MORNING'' initial_system) =
      [new_doc 1000 ?u]"
    unfolding executeScheduledFetch_def morning_lookup
    by (simp add: fetch_slot_result untitled_articles initial_system_def save)
  show ?thesis
    unfolding run
    by (simp add: articleId_new_doc newsapi_articleId)
       (simp add: new_doc_def normalizeNewsApiOrgArticle_def raw_untitled_def blank_newsapi_def
         trim_def is_space_def trim_val_def)
qed

text \<open>
  C5, amended. The normalizers emit a canonical record for every raw article
  and check no required field: \<open>title\<close> and \<open>url\<close> are copied as they
  are, and \<open>publishedAt\<close> is \<open>new Date\<close> of the raw value, the invalid
  date when the value is absent or does not parse. A record whose
  \<open>publishedAt\<close> is the invalid date is never committed by the ingestion
  path: every stored document with an invalid date after a slot execution was
  in the store before it. (What becomes of a record without \<open>title\<close> or
  \<open>url\<close> is not part of the statement.)
\<close>

theorem normalizers_validate_nothing:
  "title (normalizeNewsDataArticle p a) = nd_title a \<and>
   url (normalizeNewsDataArticle p a) = nd_link a \<and>
   publishedAt (normalizeNewsDataArticle p a) = new_Date p (nd_pubDate a) \<and>
   title (normalizeNewsApiOrgArticle p b cat ctry) = na_title b \<and>
   url (normalizeNewsApiOrgArticle p b cat ctry) = na_url b \<and>
   publishedAt (normalizeNewsApiOrgArticle p b cat ctry) = new_Date p (na_publishedAt b) \<and>
   (\<forall>d \<in> set (store (executeScheduledFetch e name s)).
      publishedAt d = InvalidDate \<longrightarrow> d \<in> set (store s))"
  using invalid_date_kept_run [of _ e name s]
  by (simp add: normalizeNewsDataArticle_def normalizeNewsApiOrgArticle_def)

text \<open>
  Run on the article without a title, the article without a parseable date,
  and a MORNING slot from the empty store in which NewsAPI.org returns the
  latter next to a valid one.
\<close>

theorem normalizers_validate_nothing_witness:
  "title (normalizeNewsApiOrgArticle iso_dates raw_untitled [''business''] [''in'']) = Null \<and>
   publishedAt (normalizeNewsApiOrgArticle iso_dates raw_undated [''business''] [''in'']) =
     InvalidDate \<and>
   list_all (\<lambda>d. publishedAt d \<noteq> InvalidDate)
     (store (executeScheduledFetch undated_env ''MORNING'' initial_system))"
proof -
  have e: "set (store initial_system) = {}" by (simp add: initial_system_def)
  show ?thesis
    using normalizers_validate_nothing [where p = iso_dates and b = raw_untitled
        and cat = "[''business'']" and ctry = "[''in'']" and e = undated_env
        and name = "''MORNING''" and s = initial_system]
      normalizers_validate_nothing [where p = iso_dates and b = raw_undated
        and cat = "[''business'']" and ctry = "[''in'']" and e = undated_env
        and name = "''MORNING''" and s = initial_system]
    by (simp add: e list_all_iff raw_untitled_def raw_undated_def blank_newsapi_def iso_dates_def)
qed

section \<open>Slot failure containment (C6)\<close>




section \<open>Scheduler stats accounting (C7)\<close>

text \<open>
  The claim as worded fails on a slot that fetches nothing. With both
  providers failing, \<open>executeScheduledFetch "MORNING"\<close> counts the attempt
  and neither a success nor a failure, and leaves \<open>lastFetchTimes\<close> as it
  was, although nothing was thrown.
\<close>

theorem empty_slot_counterexample:
  "totalFetches (fetchStats (executeScheduledFetch quiet_env ''MORNING'' initial_system)) = 1 \<and>
   successfulFetches (fetchStats (executeScheduledFetch quiet_env ''MORNING'' initial_system)) =
     successfulFetches (fetchStats initial_system) \<and>
   failedFetches (fetchStats (executeScheduledFetch quiet_env ''MORNING'' initial_system)) =
     failedFetches (fetchStats initial_system) \<and>
   lastFetchTimes (executeScheduledFetch quiet_env ''MORNING'' initial_system) ''MORNING'' = None"
  unfolding executeScheduledFetch_def morning_lookup
  by (simp add: fetch_slot_result quiet_articles initial_system_def count_attempt_def)

text \<open>
  C7, amended. Every execution of a configured slot adds exactly 1 to
  \<open>totalFetches\<close>, and at most one of \<open>successfulFetches\<close> and
  \<open>failedFetches\<close> grows, by exactly 1, once per execution whatever the
  number of parameter sets: neither when no article was fetched (and then
  \<open>lastFetchTimes\<close> is unchanged); \<open>successfulFetches\<close> when at least one
  article was fetched and the store took the batch (and then
  \<open>lastFetchTimes[slot]\<close> is set to the clock); \<open>failedFetches\<close> when at
  least one was fetched and the save threw (and then \<open>lastFetchTimes\<close> is
  unchanged).
\<close>

theorem stats_accounting:
  assumes "lookup_schedule name = Own sch"
  shows "totalFetches (fetchStats (executeScheduledFetch e name s)) =
           totalFetches (fetchStats s) + 1 \<and>
         (if fst (fetch_slot e sch (upstream_calls s)) = [] then
            successfulFetches (fetchStats (executeScheduledFetch e name s)) =
              successfulFetches (fetchStats s) \<and>
            failedFetches (fetchStats (executeScheduledFetch e name s)) =
              failedFetches (fetchStats s) \<and>
            lastFetchTimes (executeScheduledFetch e name s) = lastFetchTimes s
          else if accepts e (fst (fetch_slot e sch (upstream_calls s))) then
            successfulFetches (fetchStats (executeScheduledFetch e name s)) =
              successfulFetches (fetchStats s) + 1 \<and>
            failedFetches (fetchStats (executeScheduledFetch e name s)) =
              failedFetches (fetchStats s) \<and>
            lastFetchTimes (executeScheduledFetch e name s) =
              (lastFetchTimes s)(name \<mapsto> now e)
          else
            successfulFetches (fetchStats (executeScheduledFetch e name s)) =
              successfulFetches (fetchStats s) \<and>
            failedFetches (fetchStats (executeScheduledFetch e name s)) =
              failedFetches (fetchStats s) + 1 \<and>
            lastFetchTimes (executeScheduledFetch e name s) = lastFetchTimes s)"
proof (cases "fetch_slot e sch (upstream_calls s)")
  case (Pair arts log)
  show ?thesis
  proof (cases "arts = []")
    case True
    with Pair assms show ?thesis
      by (simp add: executeScheduledFetch_def count_attempt_def)
  next
    case False
    show ?thesis
    proof (cases "saveArticlesToDB e arts (store s)")
      case (Inl err)
      then have "\<not> accepts e arts"
        using save_throws_iff [OF False, of e "store s"] by simp
      with Inl Pair False assms show ?thesis
        by (simp add: executeScheduledFetch_def count_failure_def)
    next
      case (Inr r)
      then have "accepts e arts"
        using save_throws_iff [OF False, of e "store s"] by simp
      with Inr Pair False assms show ?thesis
        by (cases r) (simp add: executeScheduledFetch_def count_success_def)
    qed
  qed
qed

text \<open>Run on the MORNING slot in which one article is fetched and saved.\<close>

theorem stats_accounting_witness:
  "totalFetches (fetchStats (executeScheduledFetch morning_env ''MORNING'' initial_system)) = 1 \<and>
   successfulFetches (fetchStats (executeScheduledFetch morning_env ''MORNING'' initial_system)) = 1 \<and>
   failedFetches (fetchStats (executeScheduledFetch morning_env ''MORNING'' initial_system)) = 0 \<and>
   lastFetchTimes (executeScheduledFetch morning_env ''MORNING'' initial_system) ''MORNING'' =
     Some 2000"
proof -
  have acc: "accepts morning_env [sample_article]"
    by (simp add: accepts_def morning_env_def quiet_env_def)
  show ?thesis
    using stats_accounting [OF morning_lookup, of morning_env initial_system]
    by (simp add: fetch_slot_result morning_env_articles acc)
       (simp add: initial_system_def morning_env_def quiet_env_def)
qed

section \<open>Latest news excludes soft-deleted records (C8)\<close>

text \<open>
  C8, run on a store whose only document is soft-deleted. The latest-news
  read of the service, \<open>getLatestNews\<close>, returns that document:
  \<open>getNewsFromDB\<close> builds its query from the request filters alone and has
  no \<open>isDeleted\<close> condition. The static \<open>News.findRecent\<close> of the model
  returns nothing for the same store, it filters on \<open>isDeleted: false\<close>
  (\<open>findRecent_excludes_deleted\<close>). The order is as claimed for both:
  \<open>latest_news_descending\<close>, \<open>findRecent_descending\<close>.
\<close>

theorem latest_news_returns_deleted:
  "isDeleted deleted_doc \<and>
   fst (getLatestNews quiet_env no_filters deleted_system) =
     Inr \<lparr> r_success = True, r_totalResults = 1, r_articles = [deleted_doc], r_page = 1,
           r_totalPages = Some 1, r_source = ''database'' \<rparr> \<and>
   findRecent quiet_env 24 20 0 (store deleted_system) = []"
proof -
  have st: "store deleted_system = [deleted_doc]"
    by (simp add: deleted_system_def initial_system_def)
  have "fst (getLatestNews quiet_env no_filters deleted_system) =
     Inr \<lparr> r_success = True, r_totalResults = 1, r_articles = [deleted_doc], r_page = 1,
           r_totalPages = Some 1, r_source = ''database'' \<rparr>"
    by (simp add: getLatestNews_def getNewsFromDB_def example_envs_online st
        matches_no_filters sort_desc_single limit_docs_def)
  moreover have "findRecent quiet_env 24 20 0 (store deleted_system) = []"
    by (simp add: findRecent_def st deleted_doc_flag sort_desc_def limit_docs_def)
  ultimately show ?thesis by (simp add: deleted_doc_flag)
qed

section \<open>What \<open>fetchedAt\<close> records (C9)\<close>

text \<open>
  The claim as worded fails on the update of a stored record. The same
  record is committed at store time 1000 and again at store time 5000: the
  second write hits the stored document (its \<open>updatedAt\<close> becomes 5000), and
  \<open>fetchedAt\<close> is still 1000. No normalized record has a \<open>fetchedAt\<close>
  key, so \<open>$set\<close> never writes one; the value comes from the schema default
  when the document is inserted.
\<close>

theorem fetchedAt_counterexample:
  "now_store late_env = 5000 \<and>
   map articleId (stored_docs (commit_each [quiet_env, late_env] sample_article [])) =
     [articleId sample_article] \<and>
   map updatedAt (stored_docs (commit_each [quiet_env, late_env] sample_article [])) = [5000] \<and>
   map fetchedAt (stored_docs (commit_each [quiet_env, late_env] sample_article [])) = [1000]"
  unfolding commit_twice
  by (simp add: stored_docs_def articleId_set_fields sample_id trim_def is_space_def)
     (simp add: set_fields_def new_doc_def late_env_def quiet_env_def)

text \<open>
  C9, amended. After a save through \<open>saveArticlesToDB\<close> that returns, every
  document that was stored before is at its place with the \<open>articleId\<close> and
  the \<open>fetchedAt\<close> it had (an upsert of an existing \<open>articleId\<close> leaves
  \<open>fetchedAt\<close> alone), and the documents the save inserted, \<open>saved\<close>
  many, follow with \<open>fetchedAt\<close> equal to the time of the write. So
  \<open>fetchedAt\<close> is the time the pipeline first stored the record.
\<close>

theorem fetchedAt_is_insertion_time:
  assumes "saveArticlesToDB e articles ds = Inr (res, ds')"
  shows "map fetchedAt ds' = map fetchedAt ds @ replicate (saved res) (now_store e) \<and>
         take (length ds) (map articleId ds') = map articleId ds"
proof (cases "articles = []")
  case True
  with assms show ?thesis by (auto simp: saveArticlesToDB_def)
next
  case False
  let ?st = "foldl (updateOne_upsert (now_store e))
                  \<lparr> docs = ds, upsertedCount = 0, modifiedCount = 0 \<rparr> (filter castable articles)"
  from assms False have "bulkWrite e articles ds = Inr ?st \<and> res = \<lparr> saved = upsertedCount ?st, updated = modifiedCount ?st \<rparr> \<and> ds' = docs ?st"
    by (auto simp: saveArticlesToDB_def bulkWrite_def split: if_splits sum.splits)
  then have r: "saved res = upsertedCount ?st" and d: "ds' = docs ?st" by simp_all
  show ?thesis
    unfolding r d
    using fetchedAt_foldl_upsert [of "now_store e"
        "\<lparr> docs = ds, upsertedCount = 0, modifiedCount = 0 \<rparr>" "filter castable articles"]
      ids_prefix_foldl_upsert [of "\<lparr> docs = ds, upsertedCount = 0, modifiedCount = 0 \<rparr>"
        "now_store e" "filter castable articles"]
    by simp
qed

text \<open>The first commit of the sample record, into the empty store at time 1000.\<close>

theorem fetchedAt_is_insertion_time_witness:
  "saveArticlesToDB quiet_env [sample_article] [] =
     Inr (\<lparr> saved = 1, updated = 0 \<rparr>, [new_doc (now_store quiet_env) sample_article]) \<and>
   map fetchedAt [new_doc (now_store quiet_env) sample_article] = [1000]"
  using fetchedAt_is_insertion_time [OF save_sample [OF example_envs_online(1)]]
    save_sample [OF example_envs_online(1)]
  by (simp add: quiet_env_def)

section \<open>Manual trigger with an unknown slot name (C10)\<close>

text \<open>
  The claim as worded fails on a name that is not a slot. For the body
  \<open>{schedule: "BRUNCH"}\<close> the controller answers 202 with
  \<open>{schedule: "BRUNCH", status: "triggered"}\<close>: it only tests that a name
  is there, and \<open>executeScheduledFetch\<close> logs the unknown name and returns.
\<close>

theorem unknown_slot_acknowledged_counterexample:
  "map_of FETCH_SCHEDULE ''BRUNCH'' = None \<and>
   statusCode (fst (SchedulerController_triggerManualFetch quiet_env (Some (Str ''BRUNCH'')) initial_system)) = 202 \<and>
   resp_success (fst (SchedulerController_triggerManualFetch quiet_env (Some (Str ''BRUNCH'')) initial_system)) \<and>
   resp_data (fst (SchedulerController_triggerManualFetch quiet_env (Some (Str ''BRUNCH'')) initial_system)) =
     Some (''BRUNCH'', ''triggered'')"
  by (simp add: SchedulerController_triggerManualFetch_def sendSuccessResponse_def)
     (simp add: FETCH_SCHEDULE_def)

text \<open>
  C10, amended. A manual trigger whose slot name is missing (\<open>undefined\<close>,
  \<open>null\<close> or the empty string) is rejected at once with status 400 and
  changes nothing. A trigger with a non-empty name that is not a configured
  slot is acknowledged with status 202, not rejected. In both cases no
  upstream fetch is executed for that name, and the store and
  \<open>lastFetchTimes\<close> stay as they were. When the name is not a property
  that objects inherit, \<open>executeScheduledFetch\<close> only logs it and the whole
  state is unchanged. When the name is an inherited property
  (\<open>constructor\<close>, \<open>toString\<close>, \<open>__proto__\<close>, ...), the guard lets it
  pass, the execution throws before any fetch and is counted as one failed
  fetch: \<open>totalFetches\<close> and \<open>failedFetches\<close> grow by one, and nothing
  else changes.
\<close>

theorem unknown_slot_trigger:
  assumes "map_of FETCH_SCHEDULE name = None"
  shows "(name \<noteq> [] \<longrightarrow>
            statusCode (fst (SchedulerController_triggerManualFetch e (Some (Str name)) s)) = 202 \<and>
            resp_success (fst (SchedulerController_triggerManualFetch e (Some (Str name)) s))) \<and>
         (name = [] \<longrightarrow>
            statusCode (fst (SchedulerController_triggerManualFetch e (Some (Str name)) s)) = 400 \<and>
            \<not> resp_success (fst (SchedulerController_triggerManualFetch e (Some (Str name)) s)) \<and>
            snd (SchedulerController_triggerManualFetch e (Some (Str name)) s) = s) \<and>
         (\<not> truthy v \<longrightarrow>
            statusCode (fst (SchedulerController_triggerManualFetch e (Some v) s)) = 400 \<and>
            \<not> resp_success (fst (SchedulerController_triggerManualFetch e (Some v) s)) \<and>
            snd (SchedulerController_triggerManualFetch e (Some v) s) = s) \<and>
         store (snd (SchedulerController_triggerManualFetch e (Some (Str name)) s)) = store s \<and>
         upstream_calls (snd (SchedulerController_triggerManualFetch e (Some (Str name)) s)) =
           upstream_calls s \<and>
         lastFetchTimes (snd (SchedulerController_triggerManualFetch e (Some (Str name)) s)) =
           lastFetchTimes s \<and>
         (name \<notin> set object_prototype_keys \<longrightarrow>
            snd (SchedulerController_triggerManualFetch e (Some (Str name)) s) = s) \<and>
         (name \<in> set object_prototype_keys \<longrightarrow>
            snd (SchedulerController_triggerManualFetch e (Some (Str name)) s) =
              s \<lparr> fetchStats :=
                    fetchStats s \<lparr> totalFetches := totalFetches (fetchStats s) + 1,
                                   failedFetches := failedFetches (fetchStats s) + 1 \<rparr> \<rparr>)"
proof -
  have absent: "name \<notin> set object_prototype_keys \<Longrightarrow> executeScheduledFetch e name s = s"
    using assms by (simp add: executeScheduledFetch_def lookup_schedule_def)
  have inherited: "name \<in> set object_prototype_keys \<Longrightarrow>
      executeScheduledFetch e name s =
        s \<lparr> fetchStats :=
              fetchStats s \<lparr> totalFetches := totalFetches (fetchStats s) + 1,
                             failedFetches := failedFetches (fetchStats s) + 1 \<rparr> \<rparr>"
    using assms by (simp add: executeScheduledFetch_def lookup_schedule_def count_failure_def)
  have named: "name \<in> set object_prototype_keys \<Longrightarrow> name \<noteq> []"
    by (auto simp: object_prototype_keys_def)
  show ?thesis
    using unconfigured_run [OF assms, of e s] absent inherited named
    by (simp add: SchedulerController_triggerManualFetch_def triggerManualFetch_def
        sendSuccessResponse_def sendErrorResponse_def)
qed

text \<open>Run on the names \<open>"LUNCH"\<close>, \<open>undefined\<close> and \<open>"constructor"\<close>.\<close>

theorem unknown_slot_trigger_witness:
  "statusCode (fst (SchedulerController_triggerManualFetch morning_env (Some (Str ''LUNCH'')) initial_system)) = 202 \<and>
   statusCode (fst (SchedulerController_triggerManualFetch morning_env (Some Undefined) initial_system)) = 400 \<and>
   snd (SchedulerController_triggerManualFetch morning_env (Some (Str ''LUNCH'')) initial_system) =
     initial_system \<and>
   statusCode (fst (SchedulerController_triggerManualFetch morning_env (Some (Str ''constructor'')) initial_system)) = 202 \<and>
   upstream_calls (snd (SchedulerController_triggerManualFetch morning_env (Some (Str ''constructor'')) initial_system)) = [] \<and>
   fetchStats (snd (SchedulerController_triggerManualFetch morning_env (Some (Str ''constructor'')) initial_system)) =
     \<lparr> totalFetches = 1, successfulFetches = 0, failedFetches = 1, articlesSaved = 0 \<rparr>"
proof -
  have h: "map_of FETCH_SCHEDULE ''LUNCH'' = None" by (simp add: FETCH_SCHEDULE_def)
  have k: "map_of FETCH_SCHEDULE ''constructor'' = None" by (simp add: FETCH_SCHEDULE_def)
  have absent: "''LUNCH'' \<notin> set object_prototype_keys" by (simp add: object_prototype_keys_def)
  have inherited: "''constructor'' \<in> set object_prototype_keys"
    by (simp add: object_prototype_keys_def)
  show ?thesis
    using unknown_slot_trigger [OF h, of morning_env initial_system Undefined]
      unknown_slot_trigger [OF k, of morning_env initial_system Undefined] absent inherited
    by (simp add: initial_system_def)
qed

end
